theory Spec2Isabelle
  imports Complex_Main
begin

section \<open>Errors\<close>

text \<open>
  The exceptions the program can meet. Inside \<open>convert_time\<close> every one of them is
  caught by \<^verbatim>\<open>except Exception\<close>; everywhere else they leave the function that
  raised them.
\<close>

datatype error = KeyError string | ValueError | OverflowError

section \<open>Time codec\<close>

subsection \<open>Python's text primitives\<close>

text \<open>
  Text is ASCII (\<open>char\<close> is a byte). \<open>split_on c s\<close> is \<^verbatim>\<open>s.split(c)\<close> for a
  one-character separator: it cuts at every occurrence and returns one piece more than
  there are separators.
\<close>

fun split_on :: "char \<Rightarrow> string \<Rightarrow> string list" where
  "split_on c [] = [[]]"
| "split_on c (x # xs) =
     (if x = c then [] # split_on c xs
      else (case split_on c xs of
              [] \<Rightarrow> [[x]]
            | p # ps \<Rightarrow> (x # p) # ps))"

definition is_digit :: "char \<Rightarrow> bool" where
  "is_digit c = (48 \<le> (of_char c :: nat) \<and> (of_char c :: nat) \<le> 57)"

definition digit_val :: "char \<Rightarrow> nat" where
  "digit_val c = of_char c - 48"

definition digit_char :: "nat \<Rightarrow> char" where
  "digit_char n = ''0123456789'' ! n"

text \<open>The white space \<^verbatim>\<open>int()\<close> skips around an ASCII numeral: tab to carriage return, and the blank.\<close>

definition is_space :: "char \<Rightarrow> bool" where
  "is_space c = ((9 \<le> (of_char c :: nat) \<and> (of_char c :: nat) \<le> 13) \<or> (of_char c :: nat) = 32)"

definition strip :: "string \<Rightarrow> string" where
  "strip s = rev (dropWhile is_space (rev (dropWhile is_space s)))"

text \<open>
  The digits of a decimal numeral as \<^verbatim>\<open>int()\<close> accepts them: at least one digit, and
  single underscores only between two digits.
\<close>

fun valid_body :: "string \<Rightarrow> bool" where
  "valid_body [] = False"
| "valid_body [c] = is_digit c"
| "valid_body (c # d # cs) =
     (is_digit c \<and> (if d = CHR ''_'' then valid_body cs else valid_body (d # cs)))"

definition dec_value :: "string \<Rightarrow> nat" where
  "dec_value s = foldl (\<lambda>a c. 10 * a + digit_val c) 0 (filter (\<lambda>c. c \<noteq> CHR ''_'') s)"

text \<open>
  \<^verbatim>\<open>int(s)\<close> on text: surrounding white space, one optional sign, then the digits.
  Anything else is a ValueError.
\<close>

definition py_int :: "string \<Rightarrow> error + int" where
  "py_int s =
     (let t = strip s;
          neg = (t \<noteq> [] \<and> hd t = CHR ''-'');
          body = (if t \<noteq> [] \<and> (hd t = CHR ''-'' \<or> hd t = CHR ''+'') then tl t else t)
      in if valid_body body
         then Inr (if neg then - int (dec_value body) else int (dec_value body))
         else Inl ValueError)"

text \<open>\<^verbatim>\<open>str(n)\<close> of a non-negative integer.\<close>

function str_nat :: "nat \<Rightarrow> string" where
  "str_nat n = (if n < 10 then [digit_char n] else str_nat (n div 10) @ [digit_char (n mod 10)])"
  by pat_completeness auto
termination
  by (relation "measure (\<lambda>n. n)") auto

declare str_nat.simps [simp del]

text \<open>
  The format \<^verbatim>\<open>f"{n:02}"\<close> of an integer: zero-padded to two characters, the sign
  counting as one of them.
\<close>

definition fmt02 :: "int \<Rightarrow> string" where
  "fmt02 n =
     (if n < 0 then CHR ''-'' # str_nat (nat (- n))
      else if n < 10 then CHR ''0'' # str_nat (nat n)
      else str_nat (nat n))"

subsection \<open>Durations\<close>

text \<open>
  A \<^verbatim>\<open>timedelta\<close> of this program always is a whole number of seconds (it is built from
  days, hours and minutes, and differences of such), so it is modelled by that number.
  The library keeps the day count within 999999999 in magnitude and raises
  OverflowError beyond. \<^verbatim>\<open>total_seconds()\<close> is a float; below \<open>2^53\<close> it is the exact
  number of seconds, and every duration in range is below.
\<close>

type_synonym timedelta = int

definition td_in_range :: "int \<Rightarrow> bool" where
  "td_in_range s = (- 999999999 \<le> s div 86400 \<and> s div 86400 \<le> 999999999)"

definition mk_timedelta :: "int \<Rightarrow> int \<Rightarrow> int \<Rightarrow> error + timedelta" where
  "mk_timedelta days hours minutes =
     (let s = days * 86400 + hours * 3600 + minutes * 60
      in if td_in_range s then Inr s else Inl OverflowError)"

definition td_sub :: "timedelta \<Rightarrow> timedelta \<Rightarrow> error + timedelta" where
  "td_sub a b = (if td_in_range (a - b) then Inr (a - b) else Inl OverflowError)"

subsection \<open>convert_time and timedelta_to_time\<close>

text \<open>The body of the \<^verbatim>\<open>try\<close> block of \<open>convert_time\<close>, exceptions as values.\<close>

definition convert_time_try :: "string \<Rightarrow> error + timedelta" where
  "convert_time_try day_offset_time =
     (case split_on CHR ''.'' day_offset_time of
        [day_offset, time_str] \<Rightarrow>
          (case split_on CHR '':'' time_str of
             [hs, ms] \<Rightarrow>
               (case py_int hs of
                  Inl e \<Rightarrow> Inl e
                | Inr hours \<Rightarrow>
                    (case py_int ms of
                       Inl e \<Rightarrow> Inl e
                     | Inr minutes \<Rightarrow>
                         (case py_int day_offset of
                            Inl e \<Rightarrow> Inl e
                          | Inr days \<Rightarrow> mk_timedelta days hours minutes)))
           | _ \<Rightarrow> Inl ValueError)
      | _ \<Rightarrow> Inl ValueError)"

text \<open>\<open>convert_time\<close>: any exception of the body is caught and answered by \<^verbatim>\<open>timedelta(0)\<close>.\<close>

definition convert_time :: "string \<Rightarrow> timedelta" where
  "convert_time day_offset_time =
     (case convert_time_try day_offset_time of Inl e \<Rightarrow> 0 | Inr td \<Rightarrow> td)"

definition timedelta_to_time :: "timedelta \<Rightarrow> string" where
  "timedelta_to_time td =
     (let total_seconds = td;
          hours = total_seconds div 3600;
          remainder = total_seconds mod 3600;
          minutes = remainder div 60
      in fmt02 hours @ '':'' @ fmt02 minutes)"

section \<open>Data model\<close>

text \<open>
  The input document, as \<^verbatim>\<open>json.load\<close> returns it: lists of dictionaries. A key of a
  dictionary may be absent (\<open>None\<close>); the values present are text, and a sequence number
  is text or a number. \<open>d[k]\<close> on an absent key raises KeyError, \<open>d.get(k, v)\<close> answers
  \<open>v\<close>.
\<close>

datatype seq_value = SeqText string | SeqNum int

record vehicle_event =
  duty_id :: "string option"
  vehicle_event_sequence :: "seq_value option"
  vehicle_event_type :: "string option"
  start_time :: "string option"
  end_time :: "string option"
  origin_stop_id :: "string option"
  destination_stop_id :: "string option"

record vehicle =
  vehicle_events :: "vehicle_event list option"

record duty =
  duty_duty_id :: "string option"

record stop =
  stop_id :: "string option"
  stop_name :: "string option"

definition subscript :: "string \<Rightarrow> 'a option \<Rightarrow> error + 'a" where
  "subscript k v = (case v of None \<Rightarrow> Inl (KeyError k) | Some x \<Rightarrow> Inr x)"

definition get_default :: "'a option \<Rightarrow> 'a \<Rightarrow> 'a" where
  "get_default v dflt = (case v of None \<Rightarrow> dflt | Some x \<Rightarrow> x)"

text \<open>\<^verbatim>\<open>int(ev['vehicle_event_sequence'])\<close> on the value found.\<close>

definition int_of_seq :: "seq_value \<Rightarrow> error + int" where
  "int_of_seq v = (case v of SeqText s \<Rightarrow> py_int s | SeqNum n \<Rightarrow> Inr n)"

subsection \<open>The report\<close>

text \<open>
  A cell of the report: text, a number (the break duration, a float that here always
  holds a whole number of minutes exactly), or the missing value (NaN, \<^verbatim>\<open>pd.NA\<close>).
  A row carries the eight columns of the final report; the cell of a column the frame
  does not have yet is \<open>NA\<close>. \<open>columns\<close> lists the columns the frame has. Whenever a
  frame of this program has the column \<^verbatim>\<open>Duty ID\<close> it is its first column (step 1 builds
  it so, steps 2 and 3 only append columns), which is what \<^verbatim>\<open>row._1\<close> of step 3 reads.
\<close>

datatype cell = Text string | Number rat | NA

record report_row =
  Duty_ID :: string
  Start_time :: string
  End_time :: string
  First_stop :: cell
  Last_stop :: cell
  Break_duration :: cell
  Break_start_time :: cell
  Break_stop_name :: cell

record dataframe =
  columns :: "string list"
  rows :: "report_row list"

text \<open>\<^verbatim>\<open>pd.DataFrame(report)\<close> of the list of dictionaries of step 1: no dictionary, no column.\<close>

definition DataFrame :: "report_row list \<Rightarrow> dataframe" where
  "DataFrame report =
     \<lparr>columns = (if report = [] then [] else [''Duty ID'', ''Start time'', ''End time'']),
      rows = report\<rparr>"

text \<open>
  \<^verbatim>\<open>report.loc[index, col] = v\<close> for an index of the frame: the column is created (all
  NaN) when the frame does not have it, then the cell is set.
\<close>

definition add_column :: "string \<Rightarrow> string list \<Rightarrow> string list" where
  "add_column col cols = (if col \<in> set cols then cols else cols @ [col])"

definition loc_set :: "dataframe \<Rightarrow> nat \<Rightarrow> string \<Rightarrow> (report_row \<Rightarrow> report_row) \<Rightarrow> dataframe" where
  "loc_set df index col upd =
     \<lparr>columns = add_column col (columns df),
      rows = (rows df)[index := upd (rows df ! index)]\<rparr>"

section \<open>The join of events to a duty\<close>

text \<open>
  The comprehension
  \<^verbatim>\<open>[event for vehicle in vehicles for event in vehicle['vehicle_events'] if event['duty_id'] == duty_id]\<close>
  that all three steps compute. \<open>filter_events\<close> is its inner loop over one vehicle.
\<close>

fun filter_events :: "string \<Rightarrow> vehicle_event list \<Rightarrow> error + vehicle_event list" where
  "filter_events did [] = Inr []"
| "filter_events did (event # events) =
     (case subscript ''duty_id'' (duty_id event) of
        Inl e \<Rightarrow> Inl e
      | Inr d \<Rightarrow>
          (case filter_events did events of
             Inl e \<Rightarrow> Inl e
           | Inr r \<Rightarrow> Inr (if d = did then event # r else r)))"

fun matching_events :: "string \<Rightarrow> vehicle list \<Rightarrow> error + vehicle_event list" where
  "matching_events did [] = Inr []"
| "matching_events did (vehicle # vehicles) =
     (case subscript ''vehicle_events'' (vehicle_events vehicle) of
        Inl e \<Rightarrow> Inl e
      | Inr events \<Rightarrow>
          (case filter_events did events of
             Inl e \<Rightarrow> Inl e
           | Inr r \<Rightarrow>
               (case matching_events did vehicles of
                  Inl e \<Rightarrow> Inl e
                | Inr rs \<Rightarrow> Inr (r @ rs))))"

text \<open>
  The events of all vehicles, vehicles in input order and the events of each vehicle in
  input order: the list the comprehension ranges over.
\<close>

definition all_events :: "vehicle list \<Rightarrow> vehicle_event list" where
  "all_events vehicles = concat (map (\<lambda>v. get_default (vehicle_events v) []) vehicles)"

section \<open>Step 1: generate_duty_times_report\<close>

text \<open>
  \<^verbatim>\<open>sorted(matching_events, key=lambda ev: int(ev['vehicle_event_sequence']))\<close>: the keys
  are computed for every event first, in list order, then the events are sorted stably.
\<close>

fun sequence_keys :: "vehicle_event list \<Rightarrow> error + (int \<times> vehicle_event) list" where
  "sequence_keys [] = Inr []"
| "sequence_keys (ev # evs) =
     (case subscript ''vehicle_event_sequence'' (vehicle_event_sequence ev) of
        Inl e \<Rightarrow> Inl e
      | Inr v \<Rightarrow>
          (case int_of_seq v of
             Inl e \<Rightarrow> Inl e
           | Inr k \<Rightarrow>
               (case sequence_keys evs of
                  Inl e \<Rightarrow> Inl e
                | Inr ks \<Rightarrow> Inr ((k, ev) # ks))))"

definition sorted_by_sequence :: "vehicle_event list \<Rightarrow> error + vehicle_event list" where
  "sorted_by_sequence evs =
     (case sequence_keys evs of
        Inl e \<Rightarrow> Inl e
      | Inr ks \<Rightarrow> Inr (map snd (sort_key fst ks)))"

text \<open>The body of the loop for one duty: the rows it appends, none or one.\<close>

definition duty_report :: "string \<Rightarrow> vehicle_event list \<Rightarrow> error + report_row list" where
  "duty_report did matching =
     (if matching \<noteq> [] then
        (case sorted_by_sequence matching of
           Inl e \<Rightarrow> Inl e
         | Inr sorted_events \<Rightarrow>
             (let start_event = hd sorted_events;
                  end_event = last sorted_events;
                  start = convert_time (get_default (start_time start_event) ''0.00:00'');
                  end = convert_time (get_default (end_time end_event) ''0.00:00'')
              in Inr [\<lparr>Duty_ID = did,
                       Start_time = timedelta_to_time start,
                       End_time = timedelta_to_time end,
                       First_stop = NA, Last_stop = NA,
                       Break_duration = NA, Break_start_time = NA, Break_stop_name = NA\<rparr>]))
      else Inr [])"

fun duty_times_loop :: "duty list \<Rightarrow> vehicle list \<Rightarrow> error + report_row list" where
  "duty_times_loop [] vehicles = Inr []"
| "duty_times_loop (duty # duties) vehicles =
     (case subscript ''duty_id'' (duty_duty_id duty) of
        Inl e \<Rightarrow> Inl e
      | Inr did \<Rightarrow>
          (case matching_events did vehicles of
             Inl e \<Rightarrow> Inl e
           | Inr matching \<Rightarrow>
               (case duty_report did matching of
                  Inl e \<Rightarrow> Inl e
                | Inr r \<Rightarrow>
                    (case duty_times_loop duties vehicles of
                       Inl e \<Rightarrow> Inl e
                     | Inr report \<Rightarrow> Inr (r @ report)))))"

definition generate_duty_times_report :: "duty list \<Rightarrow> vehicle list \<Rightarrow> error + dataframe" where
  "generate_duty_times_report duties vehicles =
     (case duty_times_loop duties vehicles of
        Inl e \<Rightarrow> Inl e
      | Inr report \<Rightarrow> Inr (DataFrame report))"

section \<open>Step 2: add_stop_names_to_report\<close>

text \<open>
  \<^verbatim>\<open>{stop['stop_id']: stop['stop_name'] for stop in stops}\<close>: a later stop replaces an
  earlier one of the same id.
\<close>

fun build_stop_map :: "(string \<rightharpoonup> string) \<Rightarrow> stop list \<Rightarrow> error + (string \<rightharpoonup> string)" where
  "build_stop_map m [] = Inr m"
| "build_stop_map m (stop # stops) =
     (case subscript ''stop_id'' (stop_id stop) of
        Inl e \<Rightarrow> Inl e
      | Inr k \<Rightarrow>
          (case subscript ''stop_name'' (stop_name stop) of
             Inl e \<Rightarrow> Inl e
           | Inr n \<Rightarrow> build_stop_map (m(k \<mapsto> n)) stops))"

text \<open>\<^verbatim>\<open>stop_map.get(event.get(key, 'Unknown'), 'Unknown')\<close>, given the event's value under the key.\<close>

definition lookup_stop :: "(string \<rightharpoonup> string) \<Rightarrow> string option \<Rightarrow> string" where
  "lookup_stop stop_map sid = get_default (stop_map (get_default sid ''Unknown'')) ''Unknown''"

text \<open>The loop over \<^verbatim>\<open>report.iterrows()\<close>: the pairs of an index and the row it had at the start.\<close>

fun stop_names_loop ::
  "(string \<rightharpoonup> string) \<Rightarrow> vehicle list \<Rightarrow> (nat \<times> report_row) list \<Rightarrow> dataframe \<Rightarrow> error + dataframe" where
  "stop_names_loop stop_map vehicles [] report = Inr report"
| "stop_names_loop stop_map vehicles ((index, row) # rest) report =
     (case matching_events (Duty_ID row) vehicles of
        Inl e \<Rightarrow> Inl e
      | Inr duty_events \<Rightarrow>
          (if duty_events \<noteq> [] then
             (let start_event = hd duty_events;
                  end_event = last duty_events;
                  start_stop = lookup_stop stop_map (origin_stop_id start_event);
                  end_stop = lookup_stop stop_map (destination_stop_id end_event);
                  report1 = loc_set report index ''First service trip start stop''
                              (\<lambda>r. r\<lparr>First_stop := Text start_stop\<rparr>);
                  report2 = loc_set report1 index ''Last service trip end stop''
                              (\<lambda>r. r\<lparr>Last_stop := Text end_stop\<rparr>)
              in stop_names_loop stop_map vehicles rest report2)
           else stop_names_loop stop_map vehicles rest report))"

definition add_stop_names_to_report ::
  "dataframe \<Rightarrow> vehicle list \<Rightarrow> stop list \<Rightarrow> error + dataframe" where
  "add_stop_names_to_report report vehicles stops =
     (case build_stop_map Map.empty stops of
        Inl e \<Rightarrow> Inl e
      | Inr stop_map \<Rightarrow>
          (if ''Duty ID'' \<notin> set (columns report) then Inr report
           else stop_names_loop stop_map vehicles
                  (zip [0..<length (rows report)] (rows report)) report))"

section \<open>Step 3: add_breaks_to_report\<close>

record break_record =
  break_Duty_ID :: string
  break_duration_minutes :: rat
  break_start_time :: string
  break_stop_name :: string

text \<open>
  The body of the loop over \<^verbatim>\<open>i\<close> for one pair \<^verbatim>\<open>duty_events[i]\<close>,
  \<^verbatim>\<open>duty_events[i + 1]\<close>: the records it appends to \<^verbatim>\<open>breaks_data\<close>, none or one.
  The minutes are \<^verbatim>\<open>total_seconds() / 60\<close> of the difference.
\<close>

definition break_of_pair ::
  "(string \<rightharpoonup> string) \<Rightarrow> string \<Rightarrow> vehicle_event \<Rightarrow> vehicle_event \<Rightarrow> error + break_record list" where
  "break_of_pair stop_map did start_event end_event =
     (if vehicle_event_type start_event = Some ''Break'' \<and>
         vehicle_event_type end_event = Some ''Break End'' then
        (case subscript ''start_time'' (start_time end_event) of
           Inl e \<Rightarrow> Inl e
         | Inr t1 \<Rightarrow>
             (case subscript ''end_time'' (end_time start_event) of
                Inl e \<Rightarrow> Inl e
              | Inr t0 \<Rightarrow>
                  (case td_sub (convert_time t1) (convert_time t0) of
                     Inl e \<Rightarrow> Inl e
                   | Inr diff \<Rightarrow>
                       (let break_duration = (of_int diff / 60 :: rat)
                        in if break_duration > 15 then
                             (case subscript ''start_time'' (start_time start_event) of
                                Inl e \<Rightarrow> Inl e
                              | Inr t \<Rightarrow>
                                  Inr [\<lparr>break_Duty_ID = did,
                                        break_duration_minutes = break_duration,
                                        break_start_time = timedelta_to_time (convert_time t),
                                        break_stop_name =
                                          lookup_stop stop_map (origin_stop_id start_event)\<rparr>])
                           else Inr []))))
      else Inr [])"

text \<open>The loop \<^verbatim>\<open>for i in range(len(duty_events) - 1)\<close>, given the indices still to visit.\<close>

fun breaks_loop ::
  "(string \<rightharpoonup> string) \<Rightarrow> string \<Rightarrow> vehicle_event list \<Rightarrow> nat list \<Rightarrow> error + break_record list" where
  "breaks_loop stop_map did duty_events [] = Inr []"
| "breaks_loop stop_map did duty_events (i # rest) =
     (case break_of_pair stop_map did (duty_events ! i) (duty_events ! (i + 1)) of
        Inl e \<Rightarrow> Inl e
      | Inr b \<Rightarrow>
          (case breaks_loop stop_map did duty_events rest of
             Inl e \<Rightarrow> Inl e
           | Inr bs \<Rightarrow> Inr (b @ bs)))"

text \<open>The loop over \<^verbatim>\<open>report.itertuples()\<close>, collecting \<^verbatim>\<open>breaks_data\<close>.\<close>

fun breaks_data_loop ::
  "(string \<rightharpoonup> string) \<Rightarrow> vehicle list \<Rightarrow> report_row list \<Rightarrow> error + break_record list" where
  "breaks_data_loop stop_map vehicles [] = Inr []"
| "breaks_data_loop stop_map vehicles (row # rest) =
     (case matching_events (Duty_ID row) vehicles of
        Inl e \<Rightarrow> Inl e
      | Inr duty_events \<Rightarrow>
          (case breaks_loop stop_map (Duty_ID row) duty_events [0..<length duty_events - 1] of
             Inl e \<Rightarrow> Inl e
           | Inr bs \<Rightarrow>
               (case breaks_data_loop stop_map vehicles rest of
                  Inl e \<Rightarrow> Inl e
                | Inr bd \<Rightarrow> Inr (bs @ bd))))"

text \<open>
  Modelled from the spec: \<^verbatim>\<open>pd.merge\<close> is a function of the pandas library, whose code
  is not part of the repository's source. Section 4.4 of the specification: the break
  records are merged onto the report by Duty ID with left-join semantics; a duty with
  zero kept breaks keeps its row with null break fields; a duty with K kept breaks
  produces K rows, the row duplicated and the break fields varying; the join is on Duty
  ID equality, not positional. So \<^verbatim>\<open>pd.merge(report, breaks_df, on='Duty ID', how='left')\<close>
  gives the rows of the left frame in their order, each once for every break record of
  the same Duty ID (in the order of the records), or once with missing break cells when
  there is none. The break frame has its four columns also when it has no row (the
  source assigns them then), so the three columns beside the key are appended in both
  cases.
\<close>

definition with_break :: "report_row \<Rightarrow> break_record \<Rightarrow> report_row" where
  "with_break r b =
     r\<lparr>Break_duration := Number (break_duration_minutes b),
       Break_start_time := Text (break_start_time b),
       Break_stop_name := Text (break_stop_name b)\<rparr>"

definition without_break :: "report_row \<Rightarrow> report_row" where
  "without_break r = r\<lparr>Break_duration := NA, Break_start_time := NA, Break_stop_name := NA\<rparr>"

definition merge_row :: "break_record list \<Rightarrow> report_row \<Rightarrow> report_row list" where
  "merge_row breaks r =
     (case filter (\<lambda>b. break_Duty_ID b = Duty_ID r) breaks of
        [] \<Rightarrow> [without_break r]
      | m # ms \<Rightarrow> map (with_break r) (m # ms))"

definition merge_left :: "dataframe \<Rightarrow> break_record list \<Rightarrow> dataframe" where
  "merge_left report breaks =
     \<lparr>columns = columns report @
                 [''Break duration (minutes)'', ''Break start time'', ''Break stop name''],
      rows = concat (map (merge_row breaks) (rows report))\<rparr>"

definition add_breaks_to_report ::
  "dataframe \<Rightarrow> vehicle list \<Rightarrow> stop list \<Rightarrow> error + dataframe" where
  "add_breaks_to_report report vehicles stops =
     (case build_stop_map Map.empty stops of
        Inl e \<Rightarrow> Inl e
      | Inr stop_map \<Rightarrow>
          (if ''Duty ID'' \<notin> set (columns report) then Inr report
           else (case breaks_data_loop stop_map vehicles (rows report) of
                   Inl e \<Rightarrow> Inl e
                 | Inr breaks_data \<Rightarrow> Inr (merge_left report breaks_data))))"

text \<open>The break records step 3 collects for one Duty ID (none when the scan raises).\<close>

definition duty_breaks :: "(string \<rightharpoonup> string) \<Rightarrow> vehicle list \<Rightarrow> string \<Rightarrow> break_record list" where
  "duty_breaks stop_map vehicles did =
     (case matching_events did vehicles of
        Inl e \<Rightarrow> []
      | Inr duty_events \<Rightarrow>
          (case breaks_loop stop_map did duty_events [0..<length duty_events - 1] of
             Inl e \<Rightarrow> []
           | Inr bs \<Rightarrow> bs))"

section \<open>The break rule in the words of the specification\<close>

text \<open>
  A pair of consecutive events qualifies as a break when the first is of type
  \<^verbatim>\<open>Break\<close>, the second of type \<^verbatim>\<open>Break End\<close>, and the parse of the second's
  start time minus the parse of the first's end time, in minutes, is strictly greater
  than 15.
\<close>

definition spec_qualifying_break :: "vehicle_event \<Rightarrow> vehicle_event \<Rightarrow> bool" where
  "spec_qualifying_break e0 e1 =
     (vehicle_event_type e0 = Some ''Break'' \<and>
      vehicle_event_type e1 = Some ''Break End'' \<and>
      (case (start_time e1, end_time e0) of
         (Some t1, Some t0) \<Rightarrow> (of_int (convert_time t1 - convert_time t0) / 60 :: rat) > 15
       | _ \<Rightarrow> False))"

section \<open>Auxiliary notions for the statements\<close>

text \<open>
  The row the loop of step 2 leaves at the place of \<open>cur\<close> when the Duty ID is that of
  \<open>r0\<close>: unchanged when the duty has no event, otherwise with the stop names of the first
  and the last event in join order.
\<close>

definition annotated :: "(string \<rightharpoonup> string) \<Rightarrow> vehicle list \<Rightarrow> report_row \<Rightarrow> report_row \<Rightarrow> report_row" where
  "annotated sm vs r0 cur =
     (let evs = filter (\<lambda>e. duty_id e = Some (Duty_ID r0)) (all_events vs)
      in if evs = [] then cur
         else cur\<lparr>First_stop := Text (lookup_stop sm (origin_stop_id (hd evs))),
                  Last_stop := Text (lookup_stop sm (destination_stop_id (last evs)))\<rparr>)"

text \<open>
  The rows the merge gives for one report row and the break records of its duty: one row
  for each record, or the row once with missing break cells.
\<close>

definition fan_out :: "report_row \<Rightarrow> break_record list \<Rightarrow> report_row list" where
  "fan_out r ks = (if ks = [] then [without_break r] else map (with_break r) ks)"

section \<open>Example inputs\<close>

text \<open>
  One vehicle with a service trip, a break of 20 minutes and its end, all of duty
  \<^verbatim>\<open>D1\<close>; a second duty without events; two stops (the stop \<^verbatim>\<open>ZZZ\<close> is unmapped);
  and the reports the first two steps compute from them.
\<close>

definition ex_trip :: vehicle_event where
  "ex_trip = \<lparr>duty_id = Some ''D1'', vehicle_event_sequence = Some (SeqText ''1''),
     vehicle_event_type = Some ''service_trip'', start_time = Some ''0.08:00'',
     end_time = Some ''0.09:00'', origin_stop_id = Some ''S1'', destination_stop_id = Some ''S2''\<rparr>"

definition ex_break :: vehicle_event where
  "ex_break = \<lparr>duty_id = Some ''D1'', vehicle_event_sequence = Some (SeqText ''2''),
     vehicle_event_type = Some ''Break'', start_time = Some ''0.09:45'',
     end_time = Some ''0.10:00'', origin_stop_id = Some ''S2'', destination_stop_id = Some ''S2''\<rparr>"

definition ex_break_end :: vehicle_event where
  "ex_break_end = \<lparr>duty_id = Some ''D1'', vehicle_event_sequence = Some (SeqNum 3),
     vehicle_event_type = Some ''Break End'', start_time = Some ''0.10:20'',
     end_time = Some ''0.10:25'', origin_stop_id = Some ''S2'', destination_stop_id = Some ''ZZZ''\<rparr>"

definition ex_vehicles :: "vehicle list" where
  "ex_vehicles = [\<lparr>vehicle_events = Some [ex_trip, ex_break, ex_break_end]\<rparr>]"

definition ex_duties :: "duty list" where
  "ex_duties = [\<lparr>duty_duty_id = Some ''D1''\<rparr>, \<lparr>duty_duty_id = Some ''D2''\<rparr>]"

definition ex_stops :: "stop list" where
  "ex_stops = [\<lparr>stop_id = Some ''S1'', stop_name = Some ''Central''\<rparr>,
               \<lparr>stop_id = Some ''S2'', stop_name = Some ''Harbour''\<rparr>]"

definition ex_report :: dataframe where
  "ex_report = \<lparr>columns = [''Duty ID'', ''Start time'', ''End time''],
     rows = [\<lparr>Duty_ID = ''D1'', Start_time = ''08:00'', End_time = ''10:25'',
              First_stop = NA, Last_stop = NA,
              Break_duration = NA, Break_start_time = NA, Break_stop_name = NA\<rparr>]\<rparr>"

definition ex_annotated :: dataframe where
  "ex_annotated = \<lparr>columns = [''Duty ID'', ''Start time'', ''End time'',
                               ''First service trip start stop'', ''Last service trip end stop''],
     rows = [\<lparr>Duty_ID = ''D1'', Start_time = ''08:00'', End_time = ''10:25'',
              First_stop = Text ''Central'', Last_stop = Text ''Unknown'',
              Break_duration = NA, Break_start_time = NA, Break_stop_name = NA\<rparr>]\<rparr>"

text \<open>
  A second example for the merge: duty \<^verbatim>\<open>D1\<close> with two breaks of 20 and 30 minutes, duty
  \<^verbatim>\<open>D2\<close> with a single trip on another vehicle and no break.
\<close>

definition ex_break2 :: vehicle_event where
  "ex_break2 = \<lparr>duty_id = Some ''D1'', vehicle_event_sequence = Some (SeqText ''4''),
     vehicle_event_type = Some ''Break'', start_time = Some ''0.11:00'',
     end_time = Some ''0.11:10'', origin_stop_id = Some ''S1'', destination_stop_id = Some ''S1''\<rparr>"

definition ex_break2_end :: vehicle_event where
  "ex_break2_end = \<lparr>duty_id = Some ''D1'', vehicle_event_sequence = Some (SeqText ''5''),
     vehicle_event_type = Some ''Break End'', start_time = Some ''0.11:40'',
     end_time = Some ''0.11:45'', origin_stop_id = Some ''S1'', destination_stop_id = Some ''S2''\<rparr>"

definition ex_trip2 :: vehicle_event where
  "ex_trip2 = \<lparr>duty_id = Some ''D2'', vehicle_event_sequence = Some (SeqText ''1''),
     vehicle_event_type = Some ''service_trip'', start_time = Some ''0.06:00'',
     end_time = Some ''0.07:00'', origin_stop_id = Some ''S1'', destination_stop_id = Some ''S2''\<rparr>"

definition ex2_vehicles :: "vehicle list" where
  "ex2_vehicles =
     [\<lparr>vehicle_events = Some [ex_trip, ex_break, ex_break_end, ex_break2, ex_break2_end]\<rparr>,
      \<lparr>vehicle_events = Some [ex_trip2]\<rparr>]"

definition ex2_row1 :: report_row where
  "ex2_row1 = \<lparr>Duty_ID = ''D1'', Start_time = ''08:00'', End_time = ''11:45'',
              First_stop = Text ''Central'', Last_stop = Text ''Harbour'',
              Break_duration = NA, Break_start_time = NA, Break_stop_name = NA\<rparr>"

definition ex2_row2 :: report_row where
  "ex2_row2 = \<lparr>Duty_ID = ''D2'', Start_time = ''06:00'', End_time = ''07:00'',
              First_stop = Text ''Central'', Last_stop = Text ''Harbour'',
              Break_duration = NA, Break_start_time = NA, Break_stop_name = NA\<rparr>"

definition ex2_annotated :: dataframe where
  "ex2_annotated = \<lparr>columns = [''Duty ID'', ''Start time'', ''End time'',
                               ''First service trip start stop'', ''Last service trip end stop''],
     rows = [ex2_row1, ex2_row2]\<rparr>"

definition ex2_merged :: dataframe where
  "ex2_merged = \<lparr>columns = [''Duty ID'', ''Start time'', ''End time'',
                            ''First service trip start stop'', ''Last service trip end stop'',
                            ''Break duration (minutes)'', ''Break start time'', ''Break stop name''],
     rows = [\<lparr>Duty_ID = ''D1'', Start_time = ''08:00'', End_time = ''11:45'',
              First_stop = Text ''Central'', Last_stop = Text ''Harbour'',
              Break_duration = Number 20, Break_start_time = Text ''09:45'',
              Break_stop_name = Text ''Harbour''\<rparr>,
             \<lparr>Duty_ID = ''D1'', Start_time = ''08:00'', End_time = ''11:45'',
              First_stop = Text ''Central'', Last_stop = Text ''Harbour'',
              Break_duration = Number 30, Break_start_time = Text ''11:00'',
              Break_stop_name = Text ''Central''\<rparr>,
             \<lparr>Duty_ID = ''D2'', Start_time = ''06:00'', End_time = ''07:00'',
              First_stop = Text ''Central'', Last_stop = Text ''Harbour'',
              Break_duration = NA, Break_start_time = NA, Break_stop_name = NA\<rparr>]\<rparr>"

text \<open>
  The two events of the break example of the specification, with exactly the fields it
  lists (and the duty they belong to).
\<close>

definition spec_break :: vehicle_event where
  "spec_break = \<lparr>duty_id = Some ''D1'', vehicle_event_sequence = None,
     vehicle_event_type = Some ''Break'', start_time = None,
     end_time = Some ''0.10:00'', origin_stop_id = None, destination_stop_id = None\<rparr>"

definition spec_break_end :: vehicle_event where
  "spec_break_end = \<lparr>duty_id = Some ''D1'', vehicle_event_sequence = None,
     vehicle_event_type = Some ''Break End'', start_time = Some ''0.10:20'',
     end_time = None, origin_stop_id = None, destination_stop_id = None\<rparr>"

section \<open>Properties of the time codec\<close>

lemma split_on_notin: "c \<notin> set xs \<Longrightarrow> split_on c xs = [xs]"
  by (induction xs) auto

lemma split_on_app: "c \<notin> set xs \<Longrightarrow> split_on c (xs @ c # ys) = xs # split_on c ys"
  by (induction xs) auto

lemma digit_char_props: "n < 10 \<Longrightarrow> is_digit (digit_char n) \<and> digit_val (digit_char n) = n"
  unfolding is_digit_def digit_val_def digit_char_def
  by (auto simp: less_Suc_eq eval_nat_numeral)

lemma is_digit_digit_char: "n < 10 \<Longrightarrow> is_digit (digit_char n)"
  by (simp add: digit_char_props)

lemma digit_val_digit_char: "n < 10 \<Longrightarrow> digit_val (digit_char n) = n"
  by (simp add: digit_char_props)

lemma str_nat_digits: "c \<in> set (str_nat n) \<Longrightarrow> is_digit c"
proof (induction n rule: str_nat.induct)
  case (1 n)
  show ?case
  proof (cases "n < 10")
    case True
    with 1(2) show ?thesis by (subst (asm) str_nat.simps) (auto simp add: is_digit_digit_char)
  next
    case False
    with 1 show ?thesis by (subst (asm) (2) str_nat.simps) (auto simp add: is_digit_digit_char)
  qed
qed

lemma str_nat_nonempty: "str_nat n \<noteq> []"
  by (subst str_nat.simps) simp

lemma valid_body_digits: "s \<noteq> [] \<Longrightarrow> \<forall>c \<in> set s. is_digit c \<Longrightarrow> valid_body s"
proof (induction s rule: valid_body.induct)
  case 1 then show ?case by simp
next
  case (2 c) then show ?case by simp
next
  case (3 c d cs)
  then have "d \<noteq> CHR ''_''" by (auto simp: is_digit_def)
  with 3 show ?case by simp
qed

lemma dec_value_snoc:
  "is_digit c \<Longrightarrow> dec_value (s @ [c]) = 10 * dec_value s + digit_val c"
  by (auto simp: dec_value_def is_digit_def)

lemma dec_value_str_nat: "dec_value (str_nat n) = n"
proof (induction n rule: str_nat.induct)
  case (1 n)
  show ?case
  proof (cases "n < 10")
    case True
    then show ?thesis
      using is_digit_digit_char [of n]
      by (subst str_nat.simps) (auto simp add: dec_value_def digit_val_digit_char is_digit_def)
  next
    case False
    with 1 show ?thesis
      by (subst str_nat.simps) (simp add: dec_value_snoc is_digit_digit_char digit_val_digit_char)
  qed
qed

lemma digit_not_space: "is_digit c \<Longrightarrow> \<not> is_space c"
  by (auto simp: is_digit_def is_space_def)

lemma strip_digits: "s \<noteq> [] \<Longrightarrow> \<forall>c \<in> set s. is_digit c \<Longrightarrow> strip s = s"
proof -
  assume ne: "s \<noteq> []" and d: "\<forall>c \<in> set s. is_digit c"
  then have h: "\<not> is_space (hd s)" and l: "\<not> is_space (last s)"
    by (auto simp: digit_not_space)
  from ne h have 1: "dropWhile is_space s = s" by (cases s) auto
  from ne l have 2: "dropWhile is_space (rev s) = rev s" by (cases "rev s") (auto simp: last_rev hd_rev)
  show ?thesis by (simp add: strip_def 1 2)
qed

lemma py_int_digits:
  assumes "s \<noteq> []" "\<forall>c \<in> set s. is_digit c"
  shows "py_int s = Inr (int (dec_value s))"
proof -
  have "hd s \<in> set s" using assms by simp
  then have "is_digit (hd s)" using assms by blast
  then have "hd s \<noteq> CHR ''-''" "hd s \<noteq> CHR ''+''" by (auto simp: is_digit_def)
  then show ?thesis using assms
    by (simp add: py_int_def strip_digits valid_body_digits Let_def)
qed

lemma py_int_str_nat: "py_int (str_nat n) = Inr (int n)"
  using py_int_digits [of "str_nat n"] str_nat_digits str_nat_nonempty
  by (auto simp: dec_value_str_nat)

lemma py_int_fmt02: "0 \<le> n \<Longrightarrow> py_int (fmt02 n) = Inr n"
proof -
  assume n: "0 \<le> n"
  show ?thesis
  proof (cases "n < 10")
    case False
    with n show ?thesis by (simp add: fmt02_def py_int_str_nat)
  next
    case True
    have z: "is_digit CHR ''0''" by (simp add: is_digit_def)
    have "py_int (CHR ''0'' # str_nat (nat n)) = Inr (int (dec_value (CHR ''0'' # str_nat (nat n))))"
      by (rule py_int_digits) (auto simp: z str_nat_digits)
    moreover have "dec_value (CHR ''0'' # str_nat (nat n)) = dec_value (str_nat (nat n))"
      by (simp add: dec_value_def digit_val_def)
    ultimately show ?thesis using n True by (simp add: fmt02_def dec_value_str_nat)
  qed
qed

lemma fmt02_nonneg_digits: "0 \<le> n \<Longrightarrow> c \<in> set (fmt02 n) \<Longrightarrow> is_digit c"
  using str_nat_digits [of c "nat n"]
  by (auto simp: fmt02_def is_digit_def split: if_splits)

lemma digit_char_simps: "digit_char 0 = CHR ''0''" "digit_char 1 = CHR ''1''" "digit_char (Suc 0) = CHR ''1''" "digit_char 2 = CHR ''2''"
  "digit_char 3 = CHR ''3''" "digit_char 4 = CHR ''4''" "digit_char 5 = CHR ''5''"
  "digit_char 6 = CHR ''6''" "digit_char 7 = CHR ''7''" "digit_char 8 = CHR ''8''" "digit_char 9 = CHR ''9''"
  by (simp_all add: digit_char_def)

lemma split_on_nonempty: "split_on c s \<noteq> []"
  by (induction s) (auto split: list.splits)

lemma split_on_one: "split_on c s = [b] \<Longrightarrow> s = b"
proof (induction s arbitrary: b)
  case Nil then show ?case by simp
next
  case (Cons x xs)
  then show ?case by (auto simp: split_on_nonempty split: if_splits list.splits)
qed

lemma split_on_two: "split_on c s = [a, b] \<Longrightarrow> s = a @ c # b"
proof (induction s arbitrary: a)
  case Nil then show ?case by simp
next
  case (Cons x xs)
  show ?case
  proof (cases "x = c")
    case True
    with Cons.prems have a: "a = []" and r: "split_on c xs = [b]" by auto
    from r have "xs = b" by (rule split_on_one)
    with a True show ?thesis by simp
  next
    case False
    with Cons.prems obtain p where "split_on c xs = [p, b]" "a = x # p"
      by (auto split: list.splits)
    with Cons.IH show ?thesis by simp
  qed
qed

lemma convert_time_try_Inr:
  assumes "convert_time_try s = Inr td"
  shows "\<exists>d h m. s = d @ ''.'' @ h @ '':'' @ m \<and> \<not> isl (py_int d) \<and> \<not> isl (py_int h) \<and> \<not> isl (py_int m)"
proof -
  from assms obtain d t where dt: "split_on CHR ''.'' s = [d, t]"
    unfolding convert_time_try_def by (auto split: list.splits)
  with assms obtain h m where hm: "split_on CHR '':'' t = [h, m]"
    unfolding convert_time_try_def by (auto split: list.splits)
  from assms dt hm have "\<not> isl (py_int d)" "\<not> isl (py_int h)" "\<not> isl (py_int m)"
    unfolding convert_time_try_def by (auto split: sum.splits)
  moreover have "s = d @ ''.'' @ h @ '':'' @ m"
    using split_on_two [OF dt] split_on_two [OF hm] by simp
  ultimately show ?thesis by blast
qed

lemma time_arith:
  fixes d h m :: int
  assumes "0 \<le> m" "m \<le> 59"
  shows "(d * 86400 + h * 3600 + m * 60) div 3600 = d * 24 + h"
    and "((d * 86400 + h * 3600 + m * 60) mod 3600) div 60 = m"
proof -
  have e: "d * 86400 + h * 3600 + m * 60 = (d * 24 + h) * 3600 + m * 60" by simp
  have r: "0 \<le> m * 60" "m * 60 < 3600" using assms by auto
  have dv: "(m * 60) div 3600 = 0" by (rule div_pos_pos_trivial) (rule r)+
  have md: "(m * 60) mod 3600 = m * 60" by (rule mod_pos_pos_trivial) (rule r)+
  have "((d * 24 + h) * 3600 + m * 60) div 3600 = (d * 24 + h) + (m * 60) div 3600"
    by (rule div_mult_self3) simp
  then show "(d * 86400 + h * 3600 + m * 60) div 3600 = d * 24 + h"
    unfolding e dv by simp
  have "((d * 24 + h) * 3600 + m * 60) mod 3600 = (m * 60) mod 3600"
    by (rule mod_mult_self3)
  then have "(d * 86400 + h * 3600 + m * 60) mod 3600 = m * 60"
    unfolding e md .
  then show "((d * 86400 + h * 3600 + m * 60) mod 3600) div 60 = m" by simp
qed

lemma convert_time_text:
  fixes d h m :: nat
  shows "convert_time_try (str_nat d @ CHR ''.'' # fmt02 (int h) @ CHR '':'' # fmt02 (int m)) =
         mk_timedelta (int d) (int h) (int m)"
proof -
  have nd: "CHR ''.'' \<notin> set (str_nat d)" using str_nat_digits [of "CHR ''.''" d] by (auto simp: is_digit_def)
  have nh: "CHR '':'' \<notin> set (fmt02 (int h))" using fmt02_nonneg_digits [of "int h" "CHR '':''"] by (auto simp: is_digit_def)
  have nh': "CHR ''.'' \<notin> set (fmt02 (int h))" using fmt02_nonneg_digits [of "int h" "CHR ''.''"] by (auto simp: is_digit_def)
  have nm: "CHR '':'' \<notin> set (fmt02 (int m))" using fmt02_nonneg_digits [of "int m" "CHR '':''"] by (auto simp: is_digit_def)
  have nm': "CHR ''.'' \<notin> set (fmt02 (int m))" using fmt02_nonneg_digits [of "int m" "CHR ''.''"] by (auto simp: is_digit_def)
  have s1: "split_on CHR ''.'' (str_nat d @ CHR ''.'' # fmt02 (int h) @ CHR '':'' # fmt02 (int m)) =
            [str_nat d, fmt02 (int h) @ CHR '':'' # fmt02 (int m)]"
    using split_on_app [OF nd, of "fmt02 (int h) @ CHR '':'' # fmt02 (int m)"]
          split_on_notin [of "CHR ''.''" "fmt02 (int h) @ CHR '':'' # fmt02 (int m)"] nh' nm'
    by simp
  have s2: "split_on CHR '':'' (fmt02 (int h) @ CHR '':'' # fmt02 (int m)) = [fmt02 (int h), fmt02 (int m)]"
    using split_on_app [OF nh, of "fmt02 (int m)"] split_on_notin [OF nm] by simp
  show ?thesis
    by (simp add: convert_time_try_def s1 s2 py_int_fmt02 py_int_str_nat)
qed

text \<open>
  Claim C5, as the code has it. For non-negative integers \<open>d\<close>, \<open>h\<close> and \<open>m\<close> with
  \<open>m \<le> 59\<close>, formatting the parse of \<^verbatim>\<open>f"{d}.{h:02}:{m:02}"\<close> gives
  \<^verbatim>\<open>f"{d*24+h:02}:{m:02}"\<close> as long as the duration is one a \<^verbatim>\<open>timedelta\<close> can hold
  (at most 999999999 whole days). Beyond, the constructor raises OverflowError, which
  \<open>convert_time\<close> catches, and the text formatted is that of the zero duration.
\<close>

theorem format_parse_in_range:
  fixes d h m :: nat
  assumes "m \<le> 59"
  shows "timedelta_to_time (convert_time (str_nat d @ ''.'' @ fmt02 (int h) @ '':'' @ fmt02 (int m))) =
         (if td_in_range (int d * 86400 + int h * 3600 + int m * 60)
          then fmt02 (int d * 24 + int h) @ '':'' @ fmt02 (int m)
          else ''00:00'')"
proof (cases "td_in_range (int d * 86400 + int h * 3600 + int m * 60)")
  case True
  then have "convert_time (str_nat d @ ''.'' @ fmt02 (int h) @ '':'' @ fmt02 (int m)) =
             int d * 86400 + int h * 3600 + int m * 60"
    by (simp add: convert_time_def convert_time_text mk_timedelta_def)
  with True assms show ?thesis
    using time_arith [of "int m" "int d" "int h"]
    by (simp add: timedelta_to_time_def)
next
  case False
  then have "convert_time (str_nat d @ ''.'' @ fmt02 (int h) @ '':'' @ fmt02 (int m)) = 0"
    by (simp add: convert_time_def convert_time_text mk_timedelta_def)
  with False show ?thesis
    by (simp add: timedelta_to_time_def fmt02_def str_nat.simps digit_char_simps)
qed

theorem format_parse_in_range_witness:
  "(7::nat) \<le> 59 \<and>
   timedelta_to_time (convert_time (str_nat 1 @ ''.'' @ fmt02 (int 2) @ '':'' @ fmt02 (int 7))) = ''26:07''"
  using format_parse_in_range [of 7 1 2]
  by (simp add: td_in_range_def fmt02_def str_nat.simps digit_char_simps)

text \<open>
  The claim without the bound fails at one thousand million days: the parse is the zero
  duration, formatted \<^verbatim>\<open>00:00\<close>, not \<^verbatim>\<open>24000000000:00\<close>.
\<close>

theorem format_parse_counterexample:
  "timedelta_to_time (convert_time (str_nat 1000000000 @ ''.'' @ fmt02 0 @ '':'' @ fmt02 0)) \<noteq>
   fmt02 (1000000000 * 24 + 0) @ '':'' @ fmt02 0"
proof -
  have "convert_time ''1000000000.00:00'' = 0"
    by (simp add: convert_time_def convert_time_try_def py_int_def strip_def is_space_def dec_value_def digit_val_def is_digit_def mk_timedelta_def td_in_range_def)
  then show ?thesis
    by (simp add: timedelta_to_time_def fmt02_def str_nat.simps digit_char_simps)
qed

text \<open>
  Claim C6. \<open>convert_time\<close> is a total function to durations: no exception leaves it.
  A text that is not of the shape \<open>d.h:m\<close> with three components \<^verbatim>\<open>int()\<close> accepts
  (a wrong number of separators, or a component that is no integer) is answered by the
  zero duration; so are the texts \<^verbatim>\<open>abc\<close> and \<^verbatim>\<open>1:2:3\<close>.
\<close>

theorem convert_time_malformed:
  "(\<not> (\<exists>d h m. s = d @ ''.'' @ h @ '':'' @ m \<and> \<not> isl (py_int d) \<and> \<not> isl (py_int h) \<and> \<not> isl (py_int m))
      \<longrightarrow> convert_time s = 0)
   \<and> convert_time ''abc'' = 0 \<and> convert_time ''1:2:3'' = 0"
proof -
  have "convert_time s = 0"
    if "\<not> (\<exists>d h m. s = d @ ''.'' @ h @ '':'' @ m \<and> \<not> isl (py_int d) \<and> \<not> isl (py_int h) \<and> \<not> isl (py_int m))"
  proof (cases "convert_time_try s")
    case (Inl e) then show ?thesis by (simp add: convert_time_def)
  next
    case (Inr td)
    from convert_time_try_Inr [OF this] that show ?thesis by blast
  qed
  moreover have "convert_time ''abc'' = 0" "convert_time ''1:2:3'' = 0"
    by (simp_all add: convert_time_def convert_time_try_def)
  ultimately show ?thesis by blast
qed

theorem convert_time_malformed_witness:
  "\<not> (\<exists>d h m. ''12-30'' = d @ ''.'' @ h @ '':'' @ m \<and>
         \<not> isl (py_int d) \<and> \<not> isl (py_int h) \<and> \<not> isl (py_int m))
   \<and> convert_time ''12-30'' = 0"
proof -
  have n: "\<not> (\<exists>d h m. ''12-30'' = d @ ''.'' @ h @ '':'' @ m \<and>
         \<not> isl (py_int d) \<and> \<not> isl (py_int h) \<and> \<not> isl (py_int m))"
  proof
    assume "\<exists>d h m. ''12-30'' = d @ ''.'' @ h @ '':'' @ m \<and>
         \<not> isl (py_int d) \<and> \<not> isl (py_int h) \<and> \<not> isl (py_int m)"
    then obtain d h m where e: "''12-30'' = d @ ''.'' @ h @ '':'' @ m" by blast
    have "CHR ''.'' \<in> set (d @ ''.'' @ h @ '':'' @ m)" by simp
    then have "CHR ''.'' \<in> set ''12-30''" unfolding e [symmetric] .
    then show False by simp
  qed
  from convert_time_malformed [of "''12-30''"] n show ?thesis by blast
qed

section \<open>Properties of the join and of step 1\<close>

lemma filter_events_Inr:
  "filter_events did evs = Inr r \<Longrightarrow> r = filter (\<lambda>e. duty_id e = Some did) evs"
  by (induction evs arbitrary: r) (auto simp: subscript_def split: option.splits sum.splits)

lemma matching_events_Inr:
  "matching_events did vs = Inr r \<Longrightarrow> r = filter (\<lambda>e. duty_id e = Some did) (all_events vs)"
  by (induction vs arbitrary: r)
     (auto simp: subscript_def all_events_def get_default_def
           dest: filter_events_Inr split: option.splits sum.splits)



lemma sequence_keys_Inr: "sequence_keys evs = Inr ks \<Longrightarrow> map snd ks = evs"
  by (induction evs arbitrary: ks) (auto simp: subscript_def split: option.splits sum.splits)


lemma duty_report_Inr:
  "duty_report did matching = Inr r \<Longrightarrow>
     (matching = [] \<longrightarrow> r = []) \<and> (matching \<noteq> [] \<longrightarrow> (\<exists>row. r = [row] \<and> Duty_ID row = did))"
  by (auto simp: duty_report_def Let_def split: if_splits sum.splits)






lemma duty_times_loop_row:
  "duty_times_loop duties vehicles = Inr report \<Longrightarrow> r \<in> set report \<Longrightarrow>
     \<exists>evs. matching_events (Duty_ID r) vehicles = Inr evs \<and> duty_report (Duty_ID r) evs = Inr [r]"
proof (induction duties arbitrary: report)
  case Nil then show ?case by simp
next
  case (Cons d ds)
  from Cons.prems(1) obtain did matching r0 rep where
    d: "duty_duty_id d = Some did" and m: "matching_events did vehicles = Inr matching"
    and r: "duty_report did matching = Inr r0" and l: "duty_times_loop ds vehicles = Inr rep"
    and rr: "report = r0 @ rep"
    by (auto simp: subscript_def split: option.splits sum.splits)
  from Cons.prems(2) rr consider "r \<in> set r0" | "r \<in> set rep" by auto
  then show ?case
  proof cases
    case 1
    with r have "r0 = [r]" "Duty_ID r = did"
      by (auto simp: duty_report_def Let_def split: if_splits sum.splits)
    with m r show ?thesis by simp
  next
    case 2
    with Cons.IH [OF l] show ?thesis by simp
  qed
qed

lemma duty_report_single:
  "duty_report did [ev] = Inr [r] \<Longrightarrow>
     Start_time r = timedelta_to_time (convert_time (get_default (start_time ev) ''0.00:00'')) \<and>
     End_time r = timedelta_to_time (convert_time (get_default (end_time ev) ''0.00:00''))"
  by (auto simp: duty_report_def sorted_by_sequence_def subscript_def Let_def
           split: sum.splits option.splits)

text \<open>
  Claim C7, as the code has it. For a duty with exactly one matching event the start
  event and the end event are that same event, but the row's Start time is the formatted
  \<open>start_time\<close> of the event and its End time the formatted \<open>end_time\<close> (each
  \<^verbatim>\<open>0.00:00\<close> when absent): they are equal only when these two format alike.
\<close>

theorem single_event_duty_times:
  assumes "generate_duty_times_report duties vehicles = Inr report"
    and "filter (\<lambda>e. duty_id e = Some did) (all_events vehicles) = [ev]"
    and "r \<in> set (rows report)" and "Duty_ID r = did"
  shows "Start_time r = timedelta_to_time (convert_time (get_default (start_time ev) ''0.00:00'')) \<and>
         End_time r = timedelta_to_time (convert_time (get_default (end_time ev) ''0.00:00''))"
proof -
  from assms(1) obtain rep where l: "duty_times_loop duties vehicles = Inr rep" and "report = DataFrame rep"
    by (auto simp: generate_duty_times_report_def split: sum.splits)
  with assms(3) have "r \<in> set rep" by (simp add: DataFrame_def)
  from duty_times_loop_row [OF l this] assms(4) obtain evs where
    m: "matching_events did vehicles = Inr evs" and dr: "duty_report did evs = Inr [r]" by auto
  from matching_events_Inr [OF m] assms(2) have "evs = [ev]" by simp
  with dr show ?thesis by (auto dest: duty_report_single)
qed

theorem single_event_duty_times_witness:
  "generate_duty_times_report ex_duties [\<lparr>vehicle_events = Some [ex_trip]\<rparr>] =
     Inr \<lparr>columns = [''Duty ID'', ''Start time'', ''End time''],
          rows = [\<lparr>Duty_ID = ''D1'', Start_time = ''08:00'', End_time = ''09:00'',
                   First_stop = NA, Last_stop = NA,
                   Break_duration = NA, Break_start_time = NA, Break_stop_name = NA\<rparr>]\<rparr> \<and>
   filter (\<lambda>e. duty_id e = Some ''D1'') (all_events [\<lparr>vehicle_events = Some [ex_trip]\<rparr>]) = [ex_trip] \<and>
   ''08:00'' = timedelta_to_time (convert_time (get_default (start_time ex_trip) ''0.00:00'')) \<and>
   ''09:00'' = timedelta_to_time (convert_time (get_default (end_time ex_trip) ''0.00:00''))"
proof -
  let ?r = "\<lparr>Duty_ID = ''D1'', Start_time = ''08:00'', End_time = ''09:00'',
                   First_stop = NA, Last_stop = NA,
                   Break_duration = NA, Break_start_time = NA, Break_stop_name = NA\<rparr>"
  let ?df = "\<lparr>columns = [''Duty ID'', ''Start time'', ''End time''], rows = [?r]\<rparr>"
  have h1: "generate_duty_times_report ex_duties [\<lparr>vehicle_events = Some [ex_trip]\<rparr>] = Inr ?df"
    by code_simp
  have h2: "filter (\<lambda>e. duty_id e = Some ''D1'') (all_events [\<lparr>vehicle_events = Some [ex_trip]\<rparr>]) = [ex_trip]"
    by code_simp
  have h3: "?r \<in> set (rows ?df)" by simp
  have h4: "Duty_ID ?r = ''D1''" by simp
  from single_event_duty_times [OF h1 h2 h3 h4] h1 h2 show ?thesis by simp
qed

text \<open>
  A duty whose only event runs from 08:00 to 09:00 has Start time \<^verbatim>\<open>08:00\<close> and End
  time \<^verbatim>\<open>09:00\<close>.
\<close>

theorem single_event_counterexample:
  "filter (\<lambda>e. duty_id e = Some ''D1'') (all_events [\<lparr>vehicle_events = Some [ex_trip]\<rparr>]) = [ex_trip] \<and>
   generate_duty_times_report [\<lparr>duty_duty_id = Some ''D1''\<rparr>] [\<lparr>vehicle_events = Some [ex_trip]\<rparr>] =
     Inr \<lparr>columns = [''Duty ID'', ''Start time'', ''End time''],
          rows = [\<lparr>Duty_ID = ''D1'', Start_time = ''08:00'', End_time = ''09:00'',
                   First_stop = NA, Last_stop = NA,
                   Break_duration = NA, Break_start_time = NA, Break_stop_name = NA\<rparr>]\<rparr> \<and>
   ''08:00'' \<noteq> ''09:00''"
  by code_simp

section \<open>Properties of the break detector\<close>

lemma break_of_pair_length: "break_of_pair sm did a b = Inr l \<Longrightarrow> length l \<le> 1"
  by (auto simp: break_of_pair_def Let_def split: if_splits sum.splits)

lemma break_of_pair_iff:
  "break_of_pair sm did a b = Inr l \<Longrightarrow> (l \<noteq> []) = spec_qualifying_break a b"
  by (auto simp: break_of_pair_def spec_qualifying_break_def subscript_def td_sub_def Let_def
           split: if_splits sum.splits option.splits)

lemma breaks_loop_Inr:
  "breaks_loop sm did evs is = Inr bs \<Longrightarrow>
     bs = concat (map (\<lambda>i. projr (break_of_pair sm did (evs ! i) (evs ! (i + 1)))) is) \<and>
     (\<forall>i\<in>set is. \<not> isl (break_of_pair sm did (evs ! i) (evs ! (i + 1))))"
  by (induction "is" arbitrary: bs) (auto split: sum.splits)

lemma breaks_loop_isl:
  "i \<in> set is \<Longrightarrow> isl (break_of_pair sm did (evs ! i) (evs ! (i + 1))) \<Longrightarrow>
     isl (breaks_loop sm did evs is)"
  by (induction "is") (auto split: sum.splits)

lemma break_of_pair_isl_indep:
  "isl (break_of_pair sm did a b) = isl (break_of_pair sm' did' a b)"
  by (auto simp: break_of_pair_def Let_def split: if_splits sum.splits)

lemma breaks_data_loop_isl:
  "row \<in> set rs \<Longrightarrow> matching_events (Duty_ID row) vehicles = Inr evs \<Longrightarrow>
   isl (breaks_loop sm (Duty_ID row) evs [0..<length evs - 1]) \<Longrightarrow>
   isl (breaks_data_loop sm vehicles rs)"
  by (induction rs) (auto split: sum.splits)

lemma add_breaks_isl:
  assumes "''Duty ID'' \<in> set (columns report)" "row \<in> set (rows report)"
    "matching_events (Duty_ID row) vehicles = Inr evs" "i + 1 < length evs"
    "isl (break_of_pair sm did (evs ! i) (evs ! (i + 1)))"
  shows "isl (add_breaks_to_report report vehicles stops)"
proof (cases "build_stop_map Map.empty stops")
  case (Inl e) then show ?thesis by (simp add: add_breaks_to_report_def)
next
  case (Inr stop_map)
  from assms(5) have "isl (break_of_pair stop_map (Duty_ID row) (evs ! i) (evs ! (i + 1)))"
    using break_of_pair_isl_indep by blast
  moreover from assms(4) have "i \<in> set [0..<length evs - 1]" by simp
  ultimately have "isl (breaks_loop stop_map (Duty_ID row) evs [0..<length evs - 1])"
    by (rule breaks_loop_isl [rotated])
  with assms(2,3) have "isl (breaks_data_loop stop_map vehicles (rows report))"
    by (rule breaks_data_loop_isl)
  with Inr assms(1) show ?thesis by (auto simp: add_breaks_to_report_def split: sum.splits)
qed

lemma duty_report_no_time_error: "\<not> isl (sequence_keys evs) \<Longrightarrow> \<not> isl (duty_report did evs)"
  by (auto simp: duty_report_def sorted_by_sequence_def Let_def split: sum.splits)

lemma breaks_loop_records:
  assumes "breaks_loop sm did evs [0..<length evs - 1] = Inr bs"
  shows "bs = concat (map (\<lambda>i. projr (break_of_pair sm did (evs ! i) (evs ! (i + 1))))
                        [0..<length evs - 1]) \<and>
         (\<forall>i<length evs - 1.
            \<exists>l. break_of_pair sm did (evs ! i) (evs ! (i + 1)) = Inr l \<and> length l \<le> 1 \<and>
                (l \<noteq> []) = spec_qualifying_break (evs ! i) (evs ! (i + 1)) \<and>
                (\<forall>t1 t0. start_time (evs ! (i + 1)) = Some t1 \<and> end_time (evs ! i) = Some t0 \<and>
                         (of_int (convert_time t1 - convert_time t0) / 60 :: rat) = 15 \<longrightarrow> l = []))"
proof (intro conjI allI impI)
  from breaks_loop_Inr [OF assms]
  show "bs = concat (map (\<lambda>i. projr (break_of_pair sm did (evs ! i) (evs ! (i + 1))))
                        [0..<length evs - 1])" by blast
next
  fix i assume i: "i < length evs - 1"
  with breaks_loop_Inr [OF assms]
  have "\<not> isl (break_of_pair sm did (evs ! i) (evs ! (i + 1)))" by simp
  then obtain l where l: "break_of_pair sm did (evs ! i) (evs ! (i + 1)) = Inr l"
    by (cases "break_of_pair sm did (evs ! i) (evs ! (i + 1))") auto
  have q: "(l \<noteq> []) = spec_qualifying_break (evs ! i) (evs ! (i + 1))"
    using l by (rule break_of_pair_iff)
  have "\<forall>t1 t0. start_time (evs ! (i + 1)) = Some t1 \<and> end_time (evs ! i) = Some t0 \<and>
                         (of_int (convert_time t1 - convert_time t0) / 60 :: rat) = 15 \<longrightarrow> l = []"
    using q by (auto simp: spec_qualifying_break_def)
  with l q break_of_pair_length [OF l]
  show "\<exists>l. break_of_pair sm did (evs ! i) (evs ! (i + 1)) = Inr l \<and> length l \<le> 1 \<and>
                (l \<noteq> []) = spec_qualifying_break (evs ! i) (evs ! (i + 1)) \<and>
                (\<forall>t1 t0. start_time (evs ! (i + 1)) = Some t1 \<and> end_time (evs ! i) = Some t0 \<and>
                         (of_int (convert_time t1 - convert_time t0) / 60 :: rat) = 15 \<longrightarrow> l = [])"
    by blast
qed

lemma qualifying_without_start_time:
  "spec_qualifying_break a b \<Longrightarrow> start_time a = None \<Longrightarrow> isl (break_of_pair sm did a b)"
  by (auto simp: break_of_pair_def spec_qualifying_break_def subscript_def td_sub_def Let_def
           split: option.splits)

text \<open>
  Claim C2, as the code has it. When the scan of a duty's events (in join order,
  unsorted) returns, its records are those of the indices \<open>i\<close> in order, and index \<open>i\<close>
  gives a record (exactly one) if and only if event \<open>i\<close> is a \<^verbatim>\<open>Break\<close>, event \<open>i + 1\<close>
  a \<^verbatim>\<open>Break End\<close>, and the parse of the latter's start time minus the parse of the
  former's end time is more than 15 minutes; a pair of exactly 15 minutes gives none.
  The scan does not return when a pair meets these three conditions and its \<^verbatim>\<open>Break\<close>
  event has no start time: building the record raises, and no record is emitted.
\<close>

theorem break_emitted_iff:
  "(\<forall>bs. breaks_loop sm did evs [0..<length evs - 1] = Inr bs \<longrightarrow>
      bs = concat (map (\<lambda>i. projr (break_of_pair sm did (evs ! i) (evs ! (i + 1))))
                     [0..<length evs - 1]) \<and>
      (\<forall>i<length evs - 1.
         \<exists>l. break_of_pair sm did (evs ! i) (evs ! (i + 1)) = Inr l \<and> length l \<le> 1 \<and>
             (l \<noteq> []) = spec_qualifying_break (evs ! i) (evs ! (i + 1)) \<and>
             (\<forall>t1 t0. start_time (evs ! (i + 1)) = Some t1 \<and> end_time (evs ! i) = Some t0 \<and>
                      (of_int (convert_time t1 - convert_time t0) / 60 :: rat) = 15 \<longrightarrow> l = [])))
   \<and> (\<forall>i<length evs - 1.
         spec_qualifying_break (evs ! i) (evs ! (i + 1)) \<longrightarrow> start_time (evs ! i) = None \<longrightarrow>
           isl (break_of_pair sm did (evs ! i) (evs ! (i + 1))) \<and>
           isl (breaks_loop sm did evs [0..<length evs - 1]))"
proof (rule conjI)
  show "\<forall>bs. breaks_loop sm did evs [0..<length evs - 1] = Inr bs \<longrightarrow>
      bs = concat (map (\<lambda>i. projr (break_of_pair sm did (evs ! i) (evs ! (i + 1))))
                     [0..<length evs - 1]) \<and>
      (\<forall>i<length evs - 1.
         \<exists>l. break_of_pair sm did (evs ! i) (evs ! (i + 1)) = Inr l \<and> length l \<le> 1 \<and>
             (l \<noteq> []) = spec_qualifying_break (evs ! i) (evs ! (i + 1)) \<and>
             (\<forall>t1 t0. start_time (evs ! (i + 1)) = Some t1 \<and> end_time (evs ! i) = Some t0 \<and>
                      (of_int (convert_time t1 - convert_time t0) / 60 :: rat) = 15 \<longrightarrow> l = []))"
    using breaks_loop_records [of sm did evs] by blast
next
  show "\<forall>i<length evs - 1.
         spec_qualifying_break (evs ! i) (evs ! (i + 1)) \<longrightarrow> start_time (evs ! i) = None \<longrightarrow>
           isl (break_of_pair sm did (evs ! i) (evs ! (i + 1))) \<and>
           isl (breaks_loop sm did evs [0..<length evs - 1])"
  proof (intro allI impI)
    fix i assume i: "i < length evs - 1"
      and q: "spec_qualifying_break (evs ! i) (evs ! (i + 1))" and n: "start_time (evs ! i) = None"
    from q n have e: "isl (break_of_pair sm did (evs ! i) (evs ! (i + 1)))"
      by (rule qualifying_without_start_time)
    from i have "i \<in> set [0..<length evs - 1]" by simp
    then have "isl (breaks_loop sm did evs [0..<length evs - 1])"
      using e by (rule breaks_loop_isl)
    with e show "isl (break_of_pair sm did (evs ! i) (evs ! (i + 1))) \<and>
           isl (breaks_loop sm did evs [0..<length evs - 1])" by (rule conjI)
  qed
qed

theorem break_emitted_iff_witness:
  "breaks_loop Map.empty ''D1'' [ex_trip, ex_break, ex_break_end]
     [0..<length [ex_trip, ex_break, ex_break_end] - 1] =
     Inr [\<lparr>break_Duty_ID = ''D1'', break_duration_minutes = 20, break_start_time = ''09:45'',
           break_stop_name = ''Unknown''\<rparr>] \<and>
   [\<lparr>break_Duty_ID = ''D1'', break_duration_minutes = 20, break_start_time = ''09:45'',
           break_stop_name = ''Unknown''\<rparr>] =
     concat (map (\<lambda>i. projr (break_of_pair Map.empty ''D1''
                    ([ex_trip, ex_break, ex_break_end] ! i) ([ex_trip, ex_break, ex_break_end] ! (i + 1))))
              [0..<length [ex_trip, ex_break, ex_break_end] - 1])"
proof -
  have h: "breaks_loop Map.empty ''D1'' [ex_trip, ex_break, ex_break_end]
     [0..<length [ex_trip, ex_break, ex_break_end] - 1] =
     Inr [\<lparr>break_Duty_ID = ''D1'', break_duration_minutes = 20, break_start_time = ''09:45'',
           break_stop_name = ''Unknown''\<rparr>]" by code_simp
  from break_emitted_iff [THEN conjunct1, rule_format, OF h, THEN conjunct1] h
  show ?thesis by (rule conjI [rotated])
qed

text \<open>
  A \<^verbatim>\<open>Break\<close> ending at 10:00 followed by a \<^verbatim>\<open>Break End\<close> starting at 10:20 meets the
  three conditions, yet with no start time on the \<^verbatim>\<open>Break\<close> event the scan emits no
  record and raises KeyError.
\<close>

theorem break_emitted_counterexample:
  "spec_qualifying_break spec_break spec_break_end \<and>
   breaks_loop Map.empty ''D1'' [spec_break, spec_break_end]
     [0..<length [spec_break, spec_break_end] - 1] = Inl (KeyError ''start_time'')"
  by code_simp

text \<open>
  Claim C10, as the code has it. For a pair of a \<^verbatim>\<open>Break\<close> and a \<^verbatim>\<open>Break End\<close>,
  the start time of the second event and the end time of the first are read without a
  default: when one is absent the KeyError leaves the scan, and with it
  \<open>add_breaks_to_report\<close>. The start time of the first event is read only when the
  duration exceeds 15 minutes: absent, it raises KeyError then, and is not missed
  otherwise. Step 1 never fails on an absent time.
\<close>

theorem break_times_not_defaulted:
  assumes "vehicle_event_type a = Some ''Break''" and "vehicle_event_type b = Some ''Break End''"
  shows "(start_time b = None \<longrightarrow> break_of_pair sm did a b = Inl (KeyError ''start_time''))
       \<and> (start_time b \<noteq> None \<longrightarrow> end_time a = None \<longrightarrow>
            break_of_pair sm did a b = Inl (KeyError ''end_time''))
       \<and> (\<forall>t1 t0 d. start_time b = Some t1 \<longrightarrow> end_time a = Some t0 \<longrightarrow>
            td_sub (convert_time t1) (convert_time t0) = Inr d \<longrightarrow> start_time a = None \<longrightarrow>
            break_of_pair sm did a b =
              (if (of_int d / 60 :: rat) > 15 then Inl (KeyError ''start_time'') else Inr []))
       \<and> (\<forall>report vehicles stops row evs i.
            ''Duty ID'' \<in> set (columns report) \<longrightarrow> row \<in> set (rows report) \<longrightarrow>
            matching_events (Duty_ID row) vehicles = Inr evs \<longrightarrow> i + 1 < length evs \<longrightarrow>
            evs ! i = a \<longrightarrow> evs ! (i + 1) = b \<longrightarrow> isl (break_of_pair sm did a b) \<longrightarrow>
            isl (add_breaks_to_report report vehicles stops))
       \<and> (\<forall>evs. \<not> isl (sequence_keys evs) \<longrightarrow> \<not> isl (duty_report did evs))"
proof (intro conjI)
  show "start_time b = None \<longrightarrow> break_of_pair sm did a b = Inl (KeyError ''start_time'')"
    using assms by (simp add: break_of_pair_def subscript_def)
  show "start_time b \<noteq> None \<longrightarrow> end_time a = None \<longrightarrow>
            break_of_pair sm did a b = Inl (KeyError ''end_time'')"
    using assms by (auto simp: break_of_pair_def subscript_def)
  show "\<forall>t1 t0 d. start_time b = Some t1 \<longrightarrow> end_time a = Some t0 \<longrightarrow>
            td_sub (convert_time t1) (convert_time t0) = Inr d \<longrightarrow> start_time a = None \<longrightarrow>
            break_of_pair sm did a b =
              (if (of_int d / 60 :: rat) > 15 then Inl (KeyError ''start_time'') else Inr [])"
    using assms by (simp add: break_of_pair_def subscript_def Let_def)
  show "\<forall>report vehicles stops row evs i.
            ''Duty ID'' \<in> set (columns report) \<longrightarrow> row \<in> set (rows report) \<longrightarrow>
            matching_events (Duty_ID row) vehicles = Inr evs \<longrightarrow> i + 1 < length evs \<longrightarrow>
            evs ! i = a \<longrightarrow> evs ! (i + 1) = b \<longrightarrow> isl (break_of_pair sm did a b) \<longrightarrow>
            isl (add_breaks_to_report report vehicles stops)"
    using add_breaks_isl by blast
  show "\<forall>evs. \<not> isl (sequence_keys evs) \<longrightarrow> \<not> isl (duty_report did evs)"
    using duty_report_no_time_error by blast
qed

theorem break_times_not_defaulted_witness:
  "vehicle_event_type spec_break = Some ''Break'' \<and>
   vehicle_event_type spec_break_end = Some ''Break End'' \<and>
   break_of_pair Map.empty ''D1'' spec_break spec_break_end = Inl (KeyError ''start_time'')"
proof -
  have h1: "vehicle_event_type spec_break = Some ''Break''" by (simp add: spec_break_def)
  have h2: "vehicle_event_type spec_break_end = Some ''Break End''" by (simp add: spec_break_end_def)
  have a: "start_time spec_break_end = Some ''0.10:20''" by (simp add: spec_break_end_def)
  have b: "end_time spec_break = Some ''0.10:00''" by (simp add: spec_break_def)
  have c: "td_sub (convert_time ''0.10:20'') (convert_time ''0.10:00'') = Inr 1200" by code_simp
  have d: "start_time spec_break = None" by (simp add: spec_break_def)
  from break_times_not_defaulted [OF h1 h2, of Map.empty "''D1''", THEN conjunct2, THEN conjunct2,
         THEN conjunct1, rule_format, OF a b c d]
  have "break_of_pair Map.empty ''D1'' spec_break spec_break_end = Inl (KeyError ''start_time'')"
    by simp
  with h1 h2 show ?thesis by (intro conjI)
qed

text \<open>
  A matched pair of 10 minutes whose first event has no start time: step 3 returns.
\<close>

theorem break_times_counterexample:
  "add_breaks_to_report ex_report
     [\<lparr>vehicle_events = Some
        [\<lparr>duty_id = Some ''D1'', vehicle_event_sequence = None,
          vehicle_event_type = Some ''Break'', start_time = None,
          end_time = Some ''0.10:00'', origin_stop_id = None, destination_stop_id = None\<rparr>,
         \<lparr>duty_id = Some ''D1'', vehicle_event_sequence = None,
          vehicle_event_type = Some ''Break End'', start_time = Some ''0.10:10'',
          end_time = None, origin_stop_id = None, destination_stop_id = None\<rparr>]\<rparr>] [] =
   Inr \<lparr>columns = [''Duty ID'', ''Start time'', ''End time'',
                    ''Break duration (minutes)'', ''Break start time'', ''Break stop name''],
        rows = [\<lparr>Duty_ID = ''D1'', Start_time = ''08:00'', End_time = ''10:25'',
                 First_stop = NA, Last_stop = NA,
                 Break_duration = NA, Break_start_time = NA, Break_stop_name = NA\<rparr>]\<rparr>"
  by code_simp

text \<open>
  Claim C8, as the code has it. For the matched events of a \<^verbatim>\<open>Break\<close> ending at
  \<^verbatim>\<open>0.10:00\<close> and a \<^verbatim>\<open>Break End\<close> starting at \<^verbatim>\<open>0.10:20\<close> the duration is 20
  minutes and one record is emitted, with duration 20 and, as Break start time, the
  formatted start time of the \<^verbatim>\<open>Break\<close> event itself; when that event has no start time
  the scan raises KeyError.
\<close>

theorem break_example_with_start_time:
  assumes "vehicle_event_type a = Some ''Break''" and "end_time a = Some ''0.10:00''"
    and "vehicle_event_type b = Some ''Break End''" and "start_time b = Some ''0.10:20''"
  shows "breaks_loop sm did [a, b] [0..<length [a, b] - 1] =
     (case start_time a of
        None \<Rightarrow> Inl (KeyError ''start_time'')
      | Some s \<Rightarrow> Inr [\<lparr>break_Duty_ID = did, break_duration_minutes = 20,
                       break_start_time = timedelta_to_time (convert_time s),
                       break_stop_name = lookup_stop sm (origin_stop_id a)\<rparr>])"
proof -
  have t1: "convert_time ''0.10:20'' = 37200"
    by (simp add: convert_time_def convert_time_try_def py_int_def strip_def is_space_def dec_value_def digit_val_def is_digit_def mk_timedelta_def td_in_range_def)
  have t0: "convert_time ''0.10:00'' = 36000"
    by (simp add: convert_time_def convert_time_try_def py_int_def strip_def is_space_def dec_value_def digit_val_def is_digit_def mk_timedelta_def td_in_range_def)
  have "break_of_pair sm did a b =
     (case start_time a of
        None \<Rightarrow> Inl (KeyError ''start_time'')
      | Some s \<Rightarrow> Inr [\<lparr>break_Duty_ID = did, break_duration_minutes = 20,
                       break_start_time = timedelta_to_time (convert_time s),
                       break_stop_name = lookup_stop sm (origin_stop_id a)\<rparr>])"
    using assms
    by (simp add: break_of_pair_def subscript_def t1 t0 td_sub_def td_in_range_def Let_def
             split: option.splits)
  then show ?thesis by (simp split: sum.splits option.splits)
qed

theorem break_example_with_start_time_witness:
  "vehicle_event_type ex_break = Some ''Break'' \<and> end_time ex_break = Some ''0.10:00'' \<and>
   vehicle_event_type ex_break_end = Some ''Break End'' \<and> start_time ex_break_end = Some ''0.10:20'' \<and>
   breaks_loop Map.empty ''D1'' [ex_break, ex_break_end] [0..<length [ex_break, ex_break_end] - 1] =
     Inr [\<lparr>break_Duty_ID = ''D1'', break_duration_minutes = 20, break_start_time = ''09:45'',
           break_stop_name = ''Unknown''\<rparr>]"
proof -
  have h1: "vehicle_event_type ex_break = Some ''Break''" by (simp add: ex_break_def)
  have h2: "end_time ex_break = Some ''0.10:00''" by (simp add: ex_break_def)
  have h3: "vehicle_event_type ex_break_end = Some ''Break End''" by (simp add: ex_break_end_def)
  have h4: "start_time ex_break_end = Some ''0.10:20''" by (simp add: ex_break_end_def)
  have s: "start_time ex_break = Some ''0.09:45''" "origin_stop_id ex_break = Some ''S2''"
    by (simp_all add: ex_break_def)
  have t: "timedelta_to_time (convert_time ''0.09:45'') = ''09:45''" by code_simp
  have u: "lookup_stop Map.empty (Some ''S2'') = ''Unknown''"
    by (simp add: lookup_stop_def get_default_def)
  from break_example_with_start_time [OF h1 h2 h3 h4, of Map.empty "''D1''"]
  have "breaks_loop Map.empty ''D1'' [ex_break, ex_break_end] [0..<length [ex_break, ex_break_end] - 1] =
     Inr [\<lparr>break_Duty_ID = ''D1'', break_duration_minutes = 20, break_start_time = ''09:45'',
           break_stop_name = ''Unknown''\<rparr>]"
    by (simp only: s t u option.case)
  with h1 h2 h3 h4 show ?thesis by (intro conjI)
qed

text \<open>
  On the two events exactly as the specification lists them the \<^verbatim>\<open>Break\<close> event has
  no start time, and step 3 ends with a KeyError instead of a row.
\<close>

theorem break_example_counterexample:
  "add_breaks_to_report ex_report [\<lparr>vehicle_events = Some [spec_break, spec_break_end]\<rparr>] [] =
     Inl (KeyError ''start_time'')"
  by code_simp

section \<open>Properties of the stop name annotator\<close>

lemma add_column_idem: "add_column c (add_column c cs) = add_column c cs"
  by (simp add: add_column_def)

lemma add_column_both_idem:
  "add_column b (add_column a (add_column b (add_column a cs))) = add_column b (add_column a cs)"
  by (auto simp: add_column_def)

lemma stop_names_loop_rows:
  "stop_names_loop sm vs ps df = Inr df' \<Longrightarrow> distinct (map fst ps) \<Longrightarrow>
   \<forall>p\<in>set ps. fst p < length (rows df) \<Longrightarrow>
     length (rows df') = length (rows df) \<and>
     (\<forall>j<length (rows df).
        rows df' ! j = (case map_of ps j of None \<Rightarrow> rows df ! j
                        | Some r0 \<Rightarrow> annotated sm vs r0 (rows df ! j)))"
proof (induction ps arbitrary: df)
  case Nil then show ?case by simp
next
  case (Cons p ps)
  obtain i r0 where p: "p = (i, r0)" by (cases p)
  from Cons.prems(1) p obtain evs where m: "matching_events (Duty_ID r0) vs = Inr evs"
    by (auto split: sum.splits)
  then have evs: "evs = filter (\<lambda>e. duty_id e = Some (Duty_ID r0)) (all_events vs)"
    by (rule matching_events_Inr)
  define df2 where "df2 = (if evs \<noteq> [] then
       loc_set (loc_set df i ''First service trip start stop''
                  (\<lambda>r. r\<lparr>First_stop := Text (lookup_stop sm (origin_stop_id (hd evs)))\<rparr>))
         i ''Last service trip end stop''
         (\<lambda>r. r\<lparr>Last_stop := Text (lookup_stop sm (destination_stop_id (last evs)))\<rparr>)
     else df)"
  from Cons.prems(1) p m have l: "stop_names_loop sm vs ps df2 = Inr df'"
    by (auto simp: df2_def Let_def split: if_splits)
  have len: "length (rows df2) = length (rows df)" by (simp add: df2_def loc_set_def)
  from Cons.prems(3) p have i: "i < length (rows df)" by simp
  have r2i: "rows df2 ! i = annotated sm vs r0 (rows df ! i)"
    using i by (simp add: df2_def loc_set_def annotated_def evs [symmetric])
  have r2j: "j \<noteq> i \<Longrightarrow> rows df2 ! j = rows df ! j" for j
    by (simp add: df2_def loc_set_def)
  from Cons.prems(2) p have d: "distinct (map fst ps)" and ni: "i \<notin> fst ` set ps" by auto
  from Cons.prems(3) len have r: "\<forall>p\<in>set ps. fst p < length (rows df2)" by simp
  note ih = Cons.IH [OF l d r]
  from ni have mi: "map_of ps i = None" by (simp add: map_of_eq_None_iff)
  show ?case
  proof (intro conjI allI impI)
    show "length (rows df') = length (rows df)" using ih len by simp
  next
    fix j assume j: "j < length (rows df)"
    show "rows df' ! j = (case map_of (p # ps) j of None \<Rightarrow> rows df ! j
                        | Some r0 \<Rightarrow> annotated sm vs r0 (rows df ! j))"
    proof (cases "j = i")
      case True
      with ih j len mi r2i p show ?thesis by (simp split: option.splits)
    next
      case False
      then have "rows df2 ! j = rows df ! j" by (rule r2j)
      with False ih j len p show ?thesis by (simp split: option.splits)
    qed
  qed
qed

lemma stop_names_loop_columns:
  "stop_names_loop sm vs ps df = Inr df' \<Longrightarrow>
     columns df' =
       (if \<exists>p\<in>set ps. \<exists>e\<in>set (all_events vs). duty_id e = Some (Duty_ID (snd p))
        then add_column ''Last service trip end stop''
               (add_column ''First service trip start stop'' (columns df))
        else columns df)"
proof (induction ps arbitrary: df)
  case Nil then show ?case by simp
next
  case (Cons p ps)
  obtain i r0 where p: "p = (i, r0)" by (cases p)
  from Cons.prems(1) p obtain evs where m: "matching_events (Duty_ID r0) vs = Inr evs"
    by (auto split: sum.splits)
  then have evs: "evs = filter (\<lambda>e. duty_id e = Some (Duty_ID r0)) (all_events vs)"
    by (rule matching_events_Inr)
  show ?case
  proof (cases "evs = []")
    case True
    with Cons.prems p m have l: "stop_names_loop sm vs ps df = Inr df'" by simp
    from True evs have "\<not> (\<exists>e\<in>set (all_events vs). duty_id e = Some (Duty_ID r0))"
      by (auto simp: filter_empty_conv)
    with Cons.IH [OF l] p show ?thesis by simp
  next
    case False
    define df2 where "df2 =
       loc_set (loc_set df i ''First service trip start stop''
                  (\<lambda>r. r\<lparr>First_stop := Text (lookup_stop sm (origin_stop_id (hd evs)))\<rparr>))
         i ''Last service trip end stop''
         (\<lambda>r. r\<lparr>Last_stop := Text (lookup_stop sm (destination_stop_id (last evs)))\<rparr>)"
    from Cons.prems p m False have l: "stop_names_loop sm vs ps df2 = Inr df'"
      by (simp add: df2_def Let_def)
    have c2: "columns df2 = add_column ''Last service trip end stop''
               (add_column ''First service trip start stop'' (columns df))"
      by (simp add: df2_def loc_set_def)
    from False evs have "\<exists>e\<in>set (all_events vs). duty_id e = Some (Duty_ID r0)"
      by (auto simp: filter_empty_conv)
    with Cons.IH [OF l] p c2 show ?thesis
      by (simp add: add_column_both_idem)
  qed
qed

lemma stop_names_general:
  assumes "''Duty ID'' \<in> set (columns report)"
    and "add_stop_names_to_report report vehicles stops = Inr report'"
  shows "length (rows report') = length (rows report) \<and>
    (\<exists>stop_map. build_stop_map Map.empty stops = Inr stop_map \<and>
      (\<forall>i<length (rows report).
         rows report' ! i =
           (let r = rows report ! i;
                evs = filter (\<lambda>e. duty_id e = Some (Duty_ID r)) (all_events vehicles)
            in if evs = [] then r
               else r\<lparr>First_stop := Text (lookup_stop stop_map (origin_stop_id (hd evs))),
                      Last_stop := Text (lookup_stop stop_map (destination_stop_id (last evs)))\<rparr>))) \<and>
    columns report' =
      (if \<exists>r\<in>set (rows report). \<exists>e\<in>set (all_events vehicles). duty_id e = Some (Duty_ID r)
       then add_column ''Last service trip end stop''
              (add_column ''First service trip start stop'' (columns report))
       else columns report)"
proof -
  let ?ps = "zip [0..<length (rows report)] (rows report)"
  from assms obtain sm where sm: "build_stop_map Map.empty stops = Inr sm"
    and l: "stop_names_loop sm vehicles ?ps report = Inr report'"
    by (auto simp: add_stop_names_to_report_def split: sum.splits)
  have d: "distinct (map fst ?ps)" by simp
  have r: "\<forall>p\<in>set ?ps. fst p < length (rows report)" by (auto simp: set_zip)
  note rows = stop_names_loop_rows [OF l d r]
  have mo: "map_of ?ps j = Some (rows report ! j)" if "j < length (rows report)" for j
    using map_of_zip_nth [of "[0..<length (rows report)]" "rows report" j] that by simp
  have snd: "snd ` set ?ps = set (rows report)"
    by (metis (no_types) length_upt diff_zero map_snd_zip set_map)
  have 1: "length (rows report') = length (rows report)" using rows by simp
  have 2: "\<forall>i<length (rows report).
         rows report' ! i =
           (let r = rows report ! i;
                evs = filter (\<lambda>e. duty_id e = Some (Duty_ID r)) (all_events vehicles)
            in if evs = [] then r
               else r\<lparr>First_stop := Text (lookup_stop sm (origin_stop_id (hd evs))),
                      Last_stop := Text (lookup_stop sm (destination_stop_id (last evs)))\<rparr>)"
    using rows mo by (simp add: annotated_def Let_def)
  have "(\<exists>p\<in>set ?ps. \<exists>e\<in>set (all_events vehicles). duty_id e = Some (Duty_ID (snd p))) =
        (\<exists>r\<in>set (rows report). \<exists>e\<in>set (all_events vehicles). duty_id e = Some (Duty_ID r))"
    using snd by (metis (no_types, lifting) image_iff)
  with stop_names_loop_columns [OF l]
  have 3: "columns report' =
      (if \<exists>r\<in>set (rows report). \<exists>e\<in>set (all_events vehicles). duty_id e = Some (Duty_ID r)
       then add_column ''Last service trip end stop''
              (add_column ''First service trip start stop'' (columns report))
       else columns report)" by simp
  from 1 2 3 sm show ?thesis by blast
qed

lemma step1_rows_have_events:
  assumes "generate_duty_times_report duties vehicles = Inr report" and "r \<in> set (rows report)"
  shows "\<exists>e\<in>set (all_events vehicles). duty_id e = Some (Duty_ID r)"
proof -
  from assms(1) obtain rep where l: "duty_times_loop duties vehicles = Inr rep"
    and "report = DataFrame rep"
    by (auto simp: generate_duty_times_report_def split: sum.splits)
  with assms(2) have "r \<in> set rep" by (simp add: DataFrame_def)
  from duty_times_loop_row [OF l this] obtain evs where
    m: "matching_events (Duty_ID r) vehicles = Inr evs"
    and dr: "duty_report (Duty_ID r) evs = Inr [r]" by auto
  from dr have "evs \<noteq> []" by (auto dest: duty_report_Inr)
  with matching_events_Inr [OF m] show ?thesis by (auto simp: filter_empty_conv)
qed

lemma step1_columns:
  assumes "generate_duty_times_report duties vehicles = Inr report"
    and "''Duty ID'' \<in> set (columns report)"
  shows "columns report = [''Duty ID'', ''Start time'', ''End time''] \<and> rows report \<noteq> []"
  using assms
  by (auto simp: generate_duty_times_report_def DataFrame_def split: sum.splits if_splits)

text \<open>
  Claim C4. The annotator is called on the report of step 1, with the same vehicles. For
  every such report that has a Duty ID column on which it returns, the result has the
  same number of rows in the same order, the two stop name columns are added, and each
  row differs from the input row only by the stop names looked up for the first and the
  last of its duty's matched events in raw join order (vehicles in input order, events
  of a vehicle in input order, no sort by sequence number); every row has such events.
\<close>

theorem stop_names_annotation:
  assumes "generate_duty_times_report duties vehicles = Inr report"
    and "''Duty ID'' \<in> set (columns report)"
    and "add_stop_names_to_report report vehicles stops = Inr report'"
  shows "length (rows report') = length (rows report) \<and>
    columns report' =
      columns report @ [''First service trip start stop'', ''Last service trip end stop''] \<and>
    (\<exists>stop_map. build_stop_map Map.empty stops = Inr stop_map \<and>
      (\<forall>i<length (rows report).
         (let r = rows report ! i;
              evs = filter (\<lambda>e. duty_id e = Some (Duty_ID r)) (all_events vehicles)
          in evs \<noteq> [] \<and>
             rows report' ! i =
               r\<lparr>First_stop := Text (lookup_stop stop_map (origin_stop_id (hd evs))),
                 Last_stop := Text (lookup_stop stop_map (destination_stop_id (last evs)))\<rparr>)))"
proof -
  note g = stop_names_general [OF assms(2,3)]
  note c = step1_columns [OF assms(1,2)]
  have ev: "\<exists>e\<in>set (all_events vehicles). duty_id e = Some (Duty_ID r)"
    if "r \<in> set (rows report)" for r
    using assms(1) that by (rule step1_rows_have_events)
  from c obtain r0 where "r0 \<in> set (rows report)" by (cases "rows report") auto
  with ev have "\<exists>r\<in>set (rows report). \<exists>e\<in>set (all_events vehicles). duty_id e = Some (Duty_ID r)"
    by blast
  with g c have 2: "columns report' =
      columns report @ [''First service trip start stop'', ''Last service trip end stop'']"
    by (simp add: add_column_def)
  from g obtain sm where sm: "build_stop_map Map.empty stops = Inr sm"
    and rw: "\<forall>i<length (rows report).
         rows report' ! i =
           (let r = rows report ! i;
                evs = filter (\<lambda>e. duty_id e = Some (Duty_ID r)) (all_events vehicles)
            in if evs = [] then r
               else r\<lparr>First_stop := Text (lookup_stop sm (origin_stop_id (hd evs))),
                      Last_stop := Text (lookup_stop sm (destination_stop_id (last evs)))\<rparr>)"
    by blast
  have 3: "\<forall>i<length (rows report).
         (let r = rows report ! i;
              evs = filter (\<lambda>e. duty_id e = Some (Duty_ID r)) (all_events vehicles)
          in evs \<noteq> [] \<and>
             rows report' ! i =
               r\<lparr>First_stop := Text (lookup_stop sm (origin_stop_id (hd evs))),
                 Last_stop := Text (lookup_stop sm (destination_stop_id (last evs)))\<rparr>)"
  proof (intro allI impI)
    fix i assume i: "i < length (rows report)"
    then have "rows report ! i \<in> set (rows report)" by simp
    from ev [OF this]
    have ne: "filter (\<lambda>e. duty_id e = Some (Duty_ID (rows report ! i))) (all_events vehicles) \<noteq> []"
      by (auto simp: filter_empty_conv)
    with rw i show "(let r = rows report ! i;
              evs = filter (\<lambda>e. duty_id e = Some (Duty_ID r)) (all_events vehicles)
          in evs \<noteq> [] \<and>
             rows report' ! i =
               r\<lparr>First_stop := Text (lookup_stop sm (origin_stop_id (hd evs))),
                 Last_stop := Text (lookup_stop sm (destination_stop_id (last evs)))\<rparr>)"
      by (simp add: Let_def)
  qed
  from g have 1: "length (rows report') = length (rows report)" by blast
  from 1 2 3 sm show ?thesis by blast
qed

theorem stop_names_annotation_witness:
  "generate_duty_times_report ex_duties ex_vehicles = Inr ex_report \<and>
   ''Duty ID'' \<in> set (columns ex_report) \<and>
   add_stop_names_to_report ex_report ex_vehicles ex_stops = Inr ex_annotated \<and>
   length (rows ex_annotated) = length (rows ex_report) \<and>
   columns ex_annotated =
     columns ex_report @ [''First service trip start stop'', ''Last service trip end stop'']"
proof -
  have h0: "generate_duty_times_report ex_duties ex_vehicles = Inr ex_report" by code_simp
  have h1: "''Duty ID'' \<in> set (columns ex_report)" by (simp add: ex_report_def)
  have h2: "add_stop_names_to_report ex_report ex_vehicles ex_stops = Inr ex_annotated" by code_simp
  from stop_names_annotation [OF h0 h1 h2] h0 h1 h2 show ?thesis by blast
qed

lemma lookup_stop_unmapped:
  "get_default sid ''Unknown'' \<notin> dom stop_map \<Longrightarrow> lookup_stop stop_map sid = ''Unknown''"
  by (auto simp: lookup_stop_def get_default_def dom_def split: option.splits)

text \<open>
  Claim C9. The lookup is a total function, and an id that is present and maps to no
  stop, or an absent id when no stop has the id \<^verbatim>\<open>Unknown\<close>, gives the name
  \<^verbatim>\<open>Unknown\<close>. But an absent id is looked up under the key \<^verbatim>\<open>Unknown\<close>: with a stop
  of that id, events without stop ids are reported under that stop's name.
\<close>

theorem unknown_stop_id_collision:
  "add_stop_names_to_report ex_report
     [\<lparr>vehicle_events = Some [spec_break, spec_break_end]\<rparr>]
     [\<lparr>stop_id = Some ''Unknown'', stop_name = Some ''Depot''\<rparr>] =
   Inr \<lparr>columns = [''Duty ID'', ''Start time'', ''End time'',
                    ''First service trip start stop'', ''Last service trip end stop''],
        rows = [\<lparr>Duty_ID = ''D1'', Start_time = ''08:00'', End_time = ''10:25'',
                 First_stop = Text ''Depot'', Last_stop = Text ''Depot'',
                 Break_duration = NA, Break_start_time = NA, Break_stop_name = NA\<rparr>]\<rparr>"
  by code_simp

section \<open>Properties of the merge\<close>

lemma break_of_pair_id:
  "break_of_pair sm did a b = Inr l \<Longrightarrow> x \<in> set l \<Longrightarrow> break_Duty_ID x = did"
  by (auto simp: break_of_pair_def Let_def split: if_splits sum.splits)

lemma breaks_loop_id:
  "breaks_loop sm did evs is = Inr bs \<Longrightarrow> x \<in> set bs \<Longrightarrow> break_Duty_ID x = did"
proof (induction "is" arbitrary: bs)
  case Nil then show ?case by simp
next
  case (Cons i "is")
  from Cons.prems(1) obtain l bs' where l: "break_of_pair sm did (evs ! i) (evs ! (i + 1)) = Inr l"
    and bs': "breaks_loop sm did evs is = Inr bs'" and e: "bs = l @ bs'"
    by (auto split: sum.splits)
  from Cons.prems(2) e consider "x \<in> set l" | "x \<in> set bs'" by auto
  then show ?case
  proof cases
    case 1 with l show ?thesis by (rule break_of_pair_id)
  next
    case 2 with bs' show ?thesis by (rule Cons.IH)
  qed
qed

lemma duty_breaks_id: "x \<in> set (duty_breaks sm vs did) \<Longrightarrow> break_Duty_ID x = did"
proof -
  assume x: "x \<in> set (duty_breaks sm vs did)"
  then obtain evs where m: "matching_events did vs = Inr evs"
    by (cases "matching_events did vs") (auto simp: duty_breaks_def)
  with x obtain bs where b: "breaks_loop sm did evs [0..<length evs - 1] = Inr bs"
    by (cases "breaks_loop sm did evs [0..<length evs - 1]") (auto simp: duty_breaks_def)
  with x m have "x \<in> set bs" by (simp add: duty_breaks_def)
  with b show ?thesis by (rule breaks_loop_id)
qed

lemma breaks_data_loop_Inr:
  "breaks_data_loop sm vs rs = Inr bd \<Longrightarrow>
     bd = concat (map (\<lambda>r. duty_breaks sm vs (Duty_ID r)) rs)"
  by (induction rs arbitrary: bd) (auto simp: duty_breaks_def split: sum.splits)

lemma filter_other_duty:
  "did' \<noteq> did \<Longrightarrow> filter (\<lambda>b. break_Duty_ID b = did) (duty_breaks sm vs did') = []"
  by (auto simp: filter_empty_conv dest: duty_breaks_id)

lemma filter_same_duty:
  "filter (\<lambda>b. break_Duty_ID b = did) (duty_breaks sm vs did) = duty_breaks sm vs did"
  by (auto simp: filter_id_conv dest: duty_breaks_id)

lemma filter_breaks_of_duty:
  "distinct (map Duty_ID rs) \<Longrightarrow> r \<in> set rs \<Longrightarrow>
     filter (\<lambda>b. break_Duty_ID b = Duty_ID r) (concat (map (\<lambda>r. duty_breaks sm vs (Duty_ID r)) rs))
     = duty_breaks sm vs (Duty_ID r)"
proof (induction rs)
  case Nil then show ?case by simp
next
  case (Cons a rs)
  show ?case
  proof (cases "Duty_ID a = Duty_ID r")
    case True
    with Cons.prems have "\<forall>x\<in>set rs. Duty_ID x \<noteq> Duty_ID r" by (auto simp: image_iff)
    then have "filter (\<lambda>b. break_Duty_ID b = Duty_ID r)
                 (concat (map (\<lambda>r. duty_breaks sm vs (Duty_ID r)) rs)) = []"
      by (induction rs) (auto simp: filter_other_duty)
    with True show ?thesis by (simp add: filter_same_duty)
  next
    case False
    with Cons.prems have "r \<in> set rs" by auto
    with Cons False show ?thesis by (simp add: filter_other_duty)
  qed
qed

lemma merge_row_fan_out:
  "merge_row bd r = fan_out r (filter (\<lambda>b. break_Duty_ID b = Duty_ID r) bd)"
  by (simp add: merge_row_def fan_out_def split: list.splits)

lemma fan_out_id: "x \<in> set (fan_out r ks) \<Longrightarrow> Duty_ID x = Duty_ID r"
  by (auto simp: fan_out_def with_break_def without_break_def split: if_splits)

lemma filter_fan_out_same: "filter (\<lambda>x. Duty_ID x = Duty_ID r) (fan_out r ks) = fan_out r ks"
  by (auto simp: filter_id_conv dest: fan_out_id)

lemma filter_fan_out_other:
  "Duty_ID a \<noteq> Duty_ID r \<Longrightarrow> filter (\<lambda>x. Duty_ID x = Duty_ID r) (fan_out a ks) = []"
  by (auto simp: filter_empty_conv dest: fan_out_id)

lemma filter_rows_of_duty:
  "distinct (map Duty_ID rs) \<Longrightarrow> r \<in> set rs \<Longrightarrow>
     filter (\<lambda>x. Duty_ID x = Duty_ID r) (concat (map (\<lambda>r. fan_out r (f r)) rs)) = fan_out r (f r)"
proof (induction rs)
  case Nil then show ?case by simp
next
  case (Cons a rs)
  show ?case
  proof (cases "a = r")
    case True
    with Cons.prems have "\<forall>x\<in>set rs. Duty_ID x \<noteq> Duty_ID r" by (auto simp: image_iff)
    then have "filter (\<lambda>x. Duty_ID x = Duty_ID r) (concat (map (\<lambda>r. fan_out r (f r)) rs)) = []"
      by (induction rs) (auto simp: filter_fan_out_other)
    with True show ?thesis by (simp add: filter_fan_out_same)
  next
    case False
    with Cons.prems have r: "r \<in> set rs" by auto
    with Cons.prems have "Duty_ID a \<noteq> Duty_ID r" by (auto simp: image_iff)
    with Cons r show ?thesis by (simp add: filter_fan_out_other)
  qed
qed

lemma merge_rows_fan_out:
  assumes "''Duty ID'' \<in> set (columns report)"
    and "add_breaks_to_report report vehicles stops = Inr merged"
  shows "\<exists>stop_map. build_stop_map Map.empty stops = Inr stop_map \<and>
     (distinct (map Duty_ID (rows report)) \<longrightarrow>
        rows merged =
          concat (map (\<lambda>r. fan_out r (duty_breaks stop_map vehicles (Duty_ID r))) (rows report)) \<and>
        (\<forall>r\<in>set (rows report).
           filter (\<lambda>x. Duty_ID x = Duty_ID r) (rows merged) =
             fan_out r (duty_breaks stop_map vehicles (Duty_ID r)) \<and>
           length (fan_out r (duty_breaks stop_map vehicles (Duty_ID r))) =
             (if duty_breaks stop_map vehicles (Duty_ID r) = [] then 1
              else length (duty_breaks stop_map vehicles (Duty_ID r)))))"
proof -
  from assms obtain sm bd where sm: "build_stop_map Map.empty stops = Inr sm"
    and bd: "breaks_data_loop sm vehicles (rows report) = Inr bd"
    and m: "merged = merge_left report bd"
    by (auto simp: add_breaks_to_report_def split: sum.splits)
  note bdc = breaks_data_loop_Inr [OF bd]
  have "distinct (map Duty_ID (rows report)) \<longrightarrow>
        rows merged =
          concat (map (\<lambda>r. fan_out r (duty_breaks sm vehicles (Duty_ID r))) (rows report)) \<and>
        (\<forall>r\<in>set (rows report).
           filter (\<lambda>x. Duty_ID x = Duty_ID r) (rows merged) =
             fan_out r (duty_breaks sm vehicles (Duty_ID r)) \<and>
           length (fan_out r (duty_breaks sm vehicles (Duty_ID r))) =
             (if duty_breaks sm vehicles (Duty_ID r) = [] then 1
              else length (duty_breaks sm vehicles (Duty_ID r))))"
  proof (intro impI conjI ballI)
    assume d: "distinct (map Duty_ID (rows report))"
    have "map (merge_row bd) (rows report) =
          map (\<lambda>r. fan_out r (duty_breaks sm vehicles (Duty_ID r))) (rows report)"
      using filter_breaks_of_duty [OF d, of _ sm vehicles]
      by (simp add: merge_row_fan_out bdc)
    then have "concat (map (merge_row bd) (rows report)) =
          concat (map (\<lambda>r. fan_out r (duty_breaks sm vehicles (Duty_ID r))) (rows report))"
      by (rule arg_cong)
    then show e: "rows merged =
          concat (map (\<lambda>r. fan_out r (duty_breaks sm vehicles (Duty_ID r))) (rows report))"
      by (simp only: m merge_left_def dataframe.simps)
    fix r assume r: "r \<in> set (rows report)"
    show "filter (\<lambda>x. Duty_ID x = Duty_ID r) (rows merged) =
             fan_out r (duty_breaks sm vehicles (Duty_ID r))"
      unfolding e using filter_rows_of_duty [OF d r, of "\<lambda>r. duty_breaks sm vehicles (Duty_ID r)"] .
    show "length (fan_out r (duty_breaks sm vehicles (Duty_ID r))) =
             (if duty_breaks sm vehicles (Duty_ID r) = [] then 1
              else length (duty_breaks sm vehicles (Duty_ID r)))"
      by (simp add: fan_out_def)
  qed
  with sm show ?thesis by blast
qed

text \<open>
  Claim C3. When \<open>add_breaks_to_report\<close> returns on a report with a Duty ID column
  whose Duty IDs are distinct, the merged rows stand duty by duty in the order of the
  report, and the rows of the duty of a report row are: when no break was kept for the
  duty, exactly one row, the report row with the three break cells missing; when K
  breaks were kept, exactly K rows, the report row repeated with the duration, start
  time and stop name of each kept break in turn. The rows of a duty are found by its
  Duty ID, wherever the break records stand.
\<close>

theorem merge_fan_out:
  assumes "''Duty ID'' \<in> set (columns report)"
    and "add_breaks_to_report report vehicles stops = Inr merged"
  shows "\<exists>stop_map. build_stop_map Map.empty stops = Inr stop_map \<and>
     (distinct (map Duty_ID (rows report)) \<longrightarrow>
        rows merged =
          concat (map (\<lambda>r. filter (\<lambda>x. Duty_ID x = Duty_ID r) (rows merged)) (rows report)) \<and>
        (\<forall>r\<in>set (rows report).
           (duty_breaks stop_map vehicles (Duty_ID r) = [] \<longrightarrow>
              filter (\<lambda>x. Duty_ID x = Duty_ID r) (rows merged) =
                [r\<lparr>Break_duration := NA, Break_start_time := NA, Break_stop_name := NA\<rparr>]) \<and>
           (duty_breaks stop_map vehicles (Duty_ID r) \<noteq> [] \<longrightarrow>
              filter (\<lambda>x. Duty_ID x = Duty_ID r) (rows merged) =
                map (\<lambda>b. r\<lparr>Break_duration := Number (break_duration_minutes b),
                            Break_start_time := Text (break_start_time b),
                            Break_stop_name := Text (break_stop_name b)\<rparr>)
                    (duty_breaks stop_map vehicles (Duty_ID r))) \<and>
           length (filter (\<lambda>x. Duty_ID x = Duty_ID r) (rows merged)) =
             (if duty_breaks stop_map vehicles (Duty_ID r) = [] then 1
              else length (duty_breaks stop_map vehicles (Duty_ID r)))))"
proof -
  from merge_rows_fan_out [OF assms] obtain sm where
    sm: "build_stop_map Map.empty stops = Inr sm"
    and f: "distinct (map Duty_ID (rows report)) \<longrightarrow>
        rows merged =
          concat (map (\<lambda>r. fan_out r (duty_breaks sm vehicles (Duty_ID r))) (rows report)) \<and>
        (\<forall>r\<in>set (rows report).
           filter (\<lambda>x. Duty_ID x = Duty_ID r) (rows merged) =
             fan_out r (duty_breaks sm vehicles (Duty_ID r)) \<and>
           length (fan_out r (duty_breaks sm vehicles (Duty_ID r))) =
             (if duty_breaks sm vehicles (Duty_ID r) = [] then 1
              else length (duty_breaks sm vehicles (Duty_ID r))))"
    by blast
  have "distinct (map Duty_ID (rows report)) \<longrightarrow>
        rows merged =
          concat (map (\<lambda>r. filter (\<lambda>x. Duty_ID x = Duty_ID r) (rows merged)) (rows report)) \<and>
        (\<forall>r\<in>set (rows report).
           (duty_breaks sm vehicles (Duty_ID r) = [] \<longrightarrow>
              filter (\<lambda>x. Duty_ID x = Duty_ID r) (rows merged) =
                [r\<lparr>Break_duration := NA, Break_start_time := NA, Break_stop_name := NA\<rparr>]) \<and>
           (duty_breaks sm vehicles (Duty_ID r) \<noteq> [] \<longrightarrow>
              filter (\<lambda>x. Duty_ID x = Duty_ID r) (rows merged) =
                map (\<lambda>b. r\<lparr>Break_duration := Number (break_duration_minutes b),
                            Break_start_time := Text (break_start_time b),
                            Break_stop_name := Text (break_stop_name b)\<rparr>)
                    (duty_breaks sm vehicles (Duty_ID r))) \<and>
           length (filter (\<lambda>x. Duty_ID x = Duty_ID r) (rows merged)) =
             (if duty_breaks sm vehicles (Duty_ID r) = [] then 1
              else length (duty_breaks sm vehicles (Duty_ID r))))"
  proof (rule impI)
    assume d: "distinct (map Duty_ID (rows report))"
    with f have e: "rows merged =
          concat (map (\<lambda>r. fan_out r (duty_breaks sm vehicles (Duty_ID r))) (rows report))"
      and g: "\<And>r. r \<in> set (rows report) \<Longrightarrow>
           filter (\<lambda>x. Duty_ID x = Duty_ID r) (rows merged) =
             fan_out r (duty_breaks sm vehicles (Duty_ID r))"
      by auto
    have "map (\<lambda>r. filter (\<lambda>x. Duty_ID x = Duty_ID r) (rows merged)) (rows report) =
          map (\<lambda>r. fan_out r (duty_breaks sm vehicles (Duty_ID r))) (rows report)"
      by (rule map_cong [OF refl]) (rule g)
    then have "concat (map (\<lambda>r. filter (\<lambda>x. Duty_ID x = Duty_ID r) (rows merged)) (rows report)) =
          concat (map (\<lambda>r. fan_out r (duty_breaks sm vehicles (Duty_ID r))) (rows report))"
      by (rule arg_cong)
    then have 1: "rows merged =
          concat (map (\<lambda>r. filter (\<lambda>x. Duty_ID x = Duty_ID r) (rows merged)) (rows report))"
      by (rule trans [OF e sym])
    have 2: "\<forall>r\<in>set (rows report).
           (duty_breaks sm vehicles (Duty_ID r) = [] \<longrightarrow>
              filter (\<lambda>x. Duty_ID x = Duty_ID r) (rows merged) =
                [r\<lparr>Break_duration := NA, Break_start_time := NA, Break_stop_name := NA\<rparr>]) \<and>
           (duty_breaks sm vehicles (Duty_ID r) \<noteq> [] \<longrightarrow>
              filter (\<lambda>x. Duty_ID x = Duty_ID r) (rows merged) =
                map (\<lambda>b. r\<lparr>Break_duration := Number (break_duration_minutes b),
                            Break_start_time := Text (break_start_time b),
                            Break_stop_name := Text (break_stop_name b)\<rparr>)
                    (duty_breaks sm vehicles (Duty_ID r))) \<and>
           length (filter (\<lambda>x. Duty_ID x = Duty_ID r) (rows merged)) =
             (if duty_breaks sm vehicles (Duty_ID r) = [] then 1
              else length (duty_breaks sm vehicles (Duty_ID r)))"
    proof
      fix r assume "r \<in> set (rows report)"
      from g [OF this] show "(duty_breaks sm vehicles (Duty_ID r) = [] \<longrightarrow>
              filter (\<lambda>x. Duty_ID x = Duty_ID r) (rows merged) =
                [r\<lparr>Break_duration := NA, Break_start_time := NA, Break_stop_name := NA\<rparr>]) \<and>
           (duty_breaks sm vehicles (Duty_ID r) \<noteq> [] \<longrightarrow>
              filter (\<lambda>x. Duty_ID x = Duty_ID r) (rows merged) =
                map (\<lambda>b. r\<lparr>Break_duration := Number (break_duration_minutes b),
                            Break_start_time := Text (break_start_time b),
                            Break_stop_name := Text (break_stop_name b)\<rparr>)
                    (duty_breaks sm vehicles (Duty_ID r))) \<and>
           length (filter (\<lambda>x. Duty_ID x = Duty_ID r) (rows merged)) =
             (if duty_breaks sm vehicles (Duty_ID r) = [] then 1
              else length (duty_breaks sm vehicles (Duty_ID r)))"
        by (simp add: fan_out_def with_break_def without_break_def)
    qed
    from 1 2 show "rows merged =
          concat (map (\<lambda>r. filter (\<lambda>x. Duty_ID x = Duty_ID r) (rows merged)) (rows report)) \<and>
        (\<forall>r\<in>set (rows report).
           (duty_breaks sm vehicles (Duty_ID r) = [] \<longrightarrow>
              filter (\<lambda>x. Duty_ID x = Duty_ID r) (rows merged) =
                [r\<lparr>Break_duration := NA, Break_start_time := NA, Break_stop_name := NA\<rparr>]) \<and>
           (duty_breaks sm vehicles (Duty_ID r) \<noteq> [] \<longrightarrow>
              filter (\<lambda>x. Duty_ID x = Duty_ID r) (rows merged) =
                map (\<lambda>b. r\<lparr>Break_duration := Number (break_duration_minutes b),
                            Break_start_time := Text (break_start_time b),
                            Break_stop_name := Text (break_stop_name b)\<rparr>)
                    (duty_breaks sm vehicles (Duty_ID r))) \<and>
           length (filter (\<lambda>x. Duty_ID x = Duty_ID r) (rows merged)) =
             (if duty_breaks sm vehicles (Duty_ID r) = [] then 1
              else length (duty_breaks sm vehicles (Duty_ID r))))"
      by (rule conjI)
  qed
  with sm show ?thesis by blast
qed

theorem merge_fan_out_witness:
  "''Duty ID'' \<in> set (columns ex2_annotated) \<and>
   add_breaks_to_report ex2_annotated ex2_vehicles ex_stops = Inr ex2_merged \<and>
   distinct (map Duty_ID (rows ex2_annotated)) \<and>
   (\<exists>stop_map. build_stop_map Map.empty ex_stops = Inr stop_map \<and>
      length (duty_breaks stop_map ex2_vehicles ''D1'') = 2 \<and>
      duty_breaks stop_map ex2_vehicles ''D2'' = [] \<and>
      length (filter (\<lambda>x. Duty_ID x = ''D1'') (rows ex2_merged)) = 2 \<and>
      filter (\<lambda>x. Duty_ID x = ''D2'') (rows ex2_merged) =
        [ex2_row2\<lparr>Break_duration := NA, Break_start_time := NA, Break_stop_name := NA\<rparr>])"
proof -
  have h1: "''Duty ID'' \<in> set (columns ex2_annotated)" by (simp add: ex2_annotated_def)
  have h2: "add_breaks_to_report ex2_annotated ex2_vehicles ex_stops = Inr ex2_merged"
    by code_simp
  have h3: "distinct (map Duty_ID (rows ex2_annotated))"
    by (simp add: ex2_annotated_def ex2_row1_def ex2_row2_def)
  have r1: "ex2_row1 \<in> set (rows ex2_annotated)" and r2: "ex2_row2 \<in> set (rows ex2_annotated)"
    by (simp_all add: ex2_annotated_def)
  have i1: "Duty_ID ex2_row1 = ''D1''" and i2: "Duty_ID ex2_row2 = ''D2''"
    by (simp_all add: ex2_row1_def ex2_row2_def)
  from merge_fan_out [OF h1 h2] h3 obtain sm where
    sm: "build_stop_map Map.empty ex_stops = Inr sm"
    and a: "\<forall>r\<in>set (rows ex2_annotated).
           (duty_breaks sm ex2_vehicles (Duty_ID r) = [] \<longrightarrow>
              filter (\<lambda>x. Duty_ID x = Duty_ID r) (rows ex2_merged) =
                [r\<lparr>Break_duration := NA, Break_start_time := NA, Break_stop_name := NA\<rparr>]) \<and>
           (duty_breaks sm ex2_vehicles (Duty_ID r) \<noteq> [] \<longrightarrow>
              filter (\<lambda>x. Duty_ID x = Duty_ID r) (rows ex2_merged) =
                map (\<lambda>b. r\<lparr>Break_duration := Number (break_duration_minutes b),
                            Break_start_time := Text (break_start_time b),
                            Break_stop_name := Text (break_stop_name b)\<rparr>)
                    (duty_breaks sm ex2_vehicles (Duty_ID r))) \<and>
           length (filter (\<lambda>x. Duty_ID x = Duty_ID r) (rows ex2_merged)) =
             (if duty_breaks sm ex2_vehicles (Duty_ID r) = [] then 1
              else length (duty_breaks sm ex2_vehicles (Duty_ID r)))"
    by blast
  have b: "build_stop_map Map.empty ex_stops =
             Inr (Map.empty(''S1'' \<mapsto> ''Central'', ''S2'' \<mapsto> ''Harbour''))"
    by (simp add: ex_stops_def subscript_def)
  with sm have e: "sm = Map.empty(''S1'' \<mapsto> ''Central'', ''S2'' \<mapsto> ''Harbour'')" by simp
  have "length (duty_breaks (Map.empty(''S1'' \<mapsto> ''Central'', ''S2'' \<mapsto> ''Harbour''))
                  ex2_vehicles ''D1'') = 2" by code_simp
  with e have k1: "length (duty_breaks sm ex2_vehicles ''D1'') = 2" by simp
  have "duty_breaks (Map.empty(''S1'' \<mapsto> ''Central'', ''S2'' \<mapsto> ''Harbour''))
          ex2_vehicles ''D2'' = []" by code_simp
  with e have k2: "duty_breaks sm ex2_vehicles ''D2'' = []" by simp
  from a r1 i1 k1 have c1: "length (filter (\<lambda>x. Duty_ID x = ''D1'') (rows ex2_merged)) = 2"
    by fastforce
  from a r2 i2 k2 have c2: "filter (\<lambda>x. Duty_ID x = ''D2'') (rows ex2_merged) =
        [ex2_row2\<lparr>Break_duration := NA, Break_start_time := NA, Break_stop_name := NA\<rparr>]"
    by fastforce
  from h1 h2 h3 sm k1 k2 c1 c2 show ?thesis by blast
qed

end
